theory Spec2Isabelle
  imports Main "HOL-Library.Word" "HOL-Library.Sublist" "HOL-Library.AList"
begin

section \<open>Errors\<close>

text \<open>
  A Go \<open>error\<close> value is \<open>error option\<close>: \<open>None\<close> is \<open>nil\<close>.
  The store reports API failures as status errors carrying a reason; every other failure
  (a timeout of the request context, an encoding failure) is a plain error with a message.
  \<open>errors.Wrap\<close> of \<open>github.com/pkg/errors\<close> puts a message in front of a cause.
\<close>

datatype StatusReason =
    StatusReasonNotFound
  | StatusReasonAlreadyExists
  | StatusReasonConflict
  | StatusReasonTimeout
  | StatusReasonUnknown

datatype error =
    StatusError StatusReason string
  | PlainError string
  | Wrapped error string

text \<open>\<open>err.Error()\<close>: a wrapped error prints its message, a colon, and its cause.\<close>

fun Error :: "error \<Rightarrow> string" where
  "Error (StatusError r m) = m"
| "Error (PlainError m) = m"
| "Error (Wrapped cause m) = m @ '': '' @ Error cause"

text \<open>\<open>errors.Wrap(err, message)\<close> returns \<open>nil\<close> when \<open>err\<close> is \<open>nil\<close>.\<close>

fun Wrap :: "error option \<Rightarrow> string \<Rightarrow> error option" where
  "Wrap None message = None"
| "Wrap (Some err) message = Some (Wrapped err message)"

text \<open>
  \<open>kerrors.IsNotFound(err)\<close> reads the reason of a status error. It looks at the error
  it is given, not at a cause inside it; \<open>Apply\<close> and \<open>Reconcile\<close> ask it about
  errors as the client returned them.
\<close>

fun IsNotFound :: "error \<Rightarrow> bool" where
  "IsNotFound (StatusError r m) = (r = StatusReasonNotFound)"
| "IsNotFound (PlainError m) = False"
| "IsNotFound (Wrapped cause m) = False"

text \<open>\<open>client.IgnoreNotFound(err)\<close>: \<open>nil\<close> for a not-found error, \<open>err\<close> otherwise.\<close>

fun IgnoreNotFound :: "error option \<Rightarrow> error option" where
  "IgnoreNotFound None = None"
| "IgnoreNotFound (Some err) = (if IsNotFound err then None else Some err)"

definition errUpdateResourceStatus :: string where
  "errUpdateResourceStatus = ''could not update status of the parent resource''"

definition errGetResource :: string where
  "errGetResource = ''could not get the parent resource''"

definition errTemplatingOperation :: string where
  "errTemplatingOperation = ''templating operation failed''"

definition errChildResourcePatchers :: string where
  "errChildResourcePatchers = ''child resource patchers failed''"

definition errApply :: string where
  "errApply = ''apply failed''"

definition errCreateChildResource :: string where
  "errCreateChildResource = ''could not create child resource''"

definition errGetChildResource :: string where
  "errGetChildResource = ''could not get child resource''"

section \<open>Resources\<close>

text \<open>
  \<open>time.Duration\<close> is a 64-bit integer of nanoseconds. A \<open>Time\<close> is the number of
  nanoseconds since the zero instant, so \<open>IsZero\<close> is equality with 0.
  \<open>reconcileTimeout\<close> is the deadline of the context that every call of a cycle is
  given; what a cycle sees of it is a call that returns an error.
\<close>

type_synonym Duration = "64 word"

type_synonym Time = int

definition Second :: Duration where
  "Second = 1000000000"

definition Minute :: Duration where
  "Minute = 60 * Second"

definition reconcileTimeout :: Duration where
  "reconcileTimeout = 1 * Minute"

definition defaultShortWait :: Duration where
  "defaultShortWait = 30 * Second"

definition defaultLongWait :: Duration where
  "defaultLongWait = 1 * Minute"

record GroupVersionKind =
  Group :: string
  Version :: string
  Kind :: string

text \<open>\<open>schema.GroupVersionKind.String()\<close>.\<close>

definition GroupVersionKind_String :: "GroupVersionKind \<Rightarrow> string" where
  "GroupVersionKind_String gvk = Group gvk @ ''/'' @ Version gvk @ '', Kind='' @ Kind gvk"

record NamespacedName =
  Namespace :: string
  Name :: string

text \<open>
  The content of an unstructured object is a tree of the Go values that such an object
  holds and that \<open>runtime.DeepCopyJSON\<close> copies: nil, bool, int64, float64, string, and
  slices and maps of these. A float64 is finite (a mantissa and an exponent), not a number,
  or an infinity. A child holding a value of another Go type (a channel, a function) is
  not a value of this type: on it \<open>DeepCopyObject\<close> panics, in \<open>Apply\<close> before any
  call on the client.
\<close>

datatype Float64 = Finite int int | NaN | PosInf | NegInf

datatype Value =
    Null
  | Bool bool
  | Int64 "64 word"
  | Float Float64
  | String string
  | Array "Value list"
  | Object "(string \<times> Value) list"

text \<open>
  Modelled from the spec: the data model of section 3. The condition type has the two
  kinds the spec names, the success kind and the error kind; a condition carries status,
  reason, message and the time of its last transition.
\<close>

datatype ConditionType = TypeSuccess | TypeError

datatype ConditionStatus = ConditionTrue | ConditionFalse | ConditionUnknown

record Condition =
  Type :: ConditionType
  Status :: ConditionStatus
  LastTransitionTime :: Time
  Reason :: string
  Message :: string

text \<open>
  Parent and child resources are both unstructured objects. The record keeps what the
  reconciler reads through the object's accessors (kind, name, namespace, deletion
  timestamp, the conditions of the status) and the remaining top-level fields as they are.
\<close>

record Unstructured =
  GetGroupVersionKind :: GroupVersionKind
  GetName :: string
  GetNamespace :: string
  GetDeletionTimestamp :: "Time option"
  GetConditions :: "Condition list"
  UnstructuredContent :: "(string \<times> Value) list"

text \<open>\<open>meta.WasDeleted(o)\<close> is \<open>!o.GetDeletionTimestamp().IsZero()\<close>; a nil time is zero.\<close>

definition WasDeleted :: "Unstructured \<Rightarrow> bool" where
  "WasDeleted obj = (case GetDeletionTimestamp obj of None \<Rightarrow> False | Some t \<Rightarrow> t \<noteq> 0)"

text \<open>
  Modelled from the spec: the condition constructors \<open>v1alpha1.ReconcileError\<close> and
  \<open>v1alpha1.ReconcileSuccess\<close>. The spec fixes the kind of each and that the error
  condition's message is the text of the error; the clock they read is the argument
  \<open>now\<close>.
\<close>

definition ReconcileError :: "Time \<Rightarrow> error \<Rightarrow> Condition" where
  "ReconcileError now err =
     \<lparr>Type = TypeError, Status = ConditionFalse, LastTransitionTime = now,
      Reason = ''ReconcileError'', Message = Error err\<rparr>"

definition ReconcileSuccess :: "Time \<Rightarrow> Condition" where
  "ReconcileSuccess now =
     \<lparr>Type = TypeSuccess, Status = ConditionTrue, LastTransitionTime = now,
      Reason = ''ReconcileSuccess'', Message = []\<rparr>"

text \<open>
  Modelled from the spec: \<open>resource.SetConditions\<close>, which is not among the sources.
  Section 9: find-or-append by type, replace the value, refresh the timestamp only when
  the status changes. On the typed status of this model it has no way to fail, so the
  error it returns is always \<open>nil\<close>.
\<close>

fun setCondition :: "Condition list \<Rightarrow> Condition \<Rightarrow> Condition list" where
  "setCondition [] c = [c]"
| "setCondition (x # xs) c =
     (if Type x = Type c
      then (if Status x = Status c then c\<lparr>LastTransitionTime := LastTransitionTime x\<rparr> else c) # xs
      else x # setCondition xs c)"

definition SetConditions :: "Unstructured \<Rightarrow> Condition list \<Rightarrow> error option \<times> Unstructured" where
  "SetConditions cr c = (None, cr\<lparr>GetConditions := fold (\<lambda>new cs. setCondition cs new) c (GetConditions cr)\<rparr>)"

section \<open>Serialization\<close>

text \<open>
  \<open>json.Marshal\<close> fails on a float64 that JSON has no encoding for: not a number, or
  an infinity. \<open>unsupported\<close> finds the first such value of a tree, as the encoder
  prints it. The error is the one of the encoder, under the text \<open>json.Marshal\<close> puts in
  front of an error of the object's own \<open>MarshalJSON\<close>. The bytes \<open>json.Marshal\<close>
  produces are represented by the document they encode.
\<close>

fun unsupportedFloat :: "Float64 \<Rightarrow> string option" where
  "unsupportedFloat (Finite m e) = None"
| "unsupportedFloat NaN = Some ''NaN''"
| "unsupportedFloat PosInf = Some ''+Inf''"
| "unsupportedFloat NegInf = Some ''-Inf''"

fun unsupported :: "Value \<Rightarrow> string option" where
  "unsupported (Float f) = unsupportedFloat f"
| "unsupported (Array []) = None"
| "unsupported (Array (v # vs)) =
     (case unsupported v of Some t \<Rightarrow> Some t | None \<Rightarrow> unsupported (Array vs))"
| "unsupported (Object []) = None"
| "unsupported (Object (kv # kvs)) =
     (case unsupported (snd kv) of Some t \<Rightarrow> Some t | None \<Rightarrow> unsupported (Object kvs))"
| "unsupported v = None"

datatype RawJSON = RawJSON Unstructured

definition errMarshalJSON :: string where
  "errMarshalJSON = ''json: error calling MarshalJSON for type *unstructured.Unstructured''"

definition json_Marshal :: "Unstructured \<Rightarrow> error + RawJSON" where
  "json_Marshal obj =
     (case unsupported (Object (UnstructuredContent obj)) of
        Some t \<Rightarrow> Inl (PlainError (errMarshalJSON @ '': json: unsupported value: '' @ t))
      | None \<Rightarrow> Inr (RawJSON obj))"

text \<open>
  \<open>DeepCopyObject\<close> copies the object, content included. Every value of the content is
  of a type the copy accepts, and values are immutable here, so the copy is the object.
\<close>

definition DeepCopyObject :: "Unstructured \<Rightarrow> Unstructured" where
  "DeepCopyObject obj = obj"

datatype PatchType = JSONPatchType | MergePatchType | StrategicMergePatchType | ApplyPatchType

record Patch =
  PatchType :: PatchType
  Data :: RawJSON

text \<open>\<open>client.ConstantPatch(patchType, data)\<close>.\<close>

definition ConstantPatch :: "PatchType \<Rightarrow> RawJSON \<Rightarrow> Patch" where
  "ConstantPatch t d = \<lparr>PatchType = t, Data = d\<rparr>"

section \<open>The client\<close>

text \<open>
  \<open>client.Client\<close> is an interface; a client is a record of its methods over the state
  \<open>'w\<close> of whatever implements it. \<open>Get\<close> fills the object it is given (which carries
  the kind to look for) or fails; the other methods return their error. A write may fill
  the object it was given with the answer of the server; neither \<open>Apply\<close> nor
  \<open>Reconcile\<close> reads an object again after a write of it succeeded. The request
  context only bounds the time of a call; a call that runs out of time returns an error
  like any other. \<open>StatusUpdate\<close> is \<open>Status().Update\<close>.
\<close>

record 'w Client =
  Get :: "NamespacedName \<Rightarrow> Unstructured \<Rightarrow> 'w \<Rightarrow> (error + Unstructured) \<times> 'w"
  Create :: "Unstructured \<Rightarrow> 'w \<Rightarrow> error option \<times> 'w"
  Delete :: "Unstructured \<Rightarrow> 'w \<Rightarrow> error option \<times> 'w"
  Update :: "Unstructured \<Rightarrow> 'w \<Rightarrow> error option \<times> 'w"
  Patch :: "Unstructured \<Rightarrow> Patch \<Rightarrow> 'w \<Rightarrow> error option \<times> 'w"
  DeleteAllOf :: "Unstructured \<Rightarrow> 'w \<Rightarrow> error option \<times> 'w"
  StatusUpdate :: "Unstructured \<Rightarrow> 'w \<Rightarrow> error option \<times> 'w"

section \<open>Apply\<close>

text \<open>
  \<open>Apply\<close> creates the object if it does not exist and patches it if it does. It
  copies \<open>o\<close> first and gives the copy to \<open>Get\<close> to fill.
\<close>

definition Apply :: "'w Client \<Rightarrow> Unstructured \<Rightarrow> 'w \<Rightarrow> error option \<times> 'w" where
  "Apply c obj w =
     (case Get c \<lparr>Namespace = GetNamespace obj, Name = GetName obj\<rparr> (DeepCopyObject obj) w of
        (Inl err, w1) \<Rightarrow>
          if IsNotFound err
          then (case Create c obj w1 of (cerr, w2) \<Rightarrow> (Wrap cerr errCreateChildResource, w2))
          else (Wrap (Some err) errGetChildResource, w1)
      | (Inr existing, w1) \<Rightarrow>
          (case json_Marshal obj of
             Inl err \<Rightarrow> (Some err, w1)
           | Inr patchJSON \<Rightarrow> Patch c existing (ConstantPatch MergePatchType patchJSON) w1))"

section \<open>The reconciler\<close>

type_synonym TemplatingEngine = "Unstructured \<Rightarrow> error + Unstructured list"

type_synonym ChildResourcePatcher = "Unstructured \<Rightarrow> Unstructured list \<Rightarrow> error + Unstructured list"

text \<open>
  Modelled from the spec: \<open>ChildResourcePatcherChain.Patch\<close>, which is not among the
  sources. Section 4.3: the steps run strictly in order, each on the children the previous
  one produced; the first error aborts the chain and is returned with no partial result.
\<close>

fun ChildResourcePatcherChain_Patch ::
  "ChildResourcePatcher list \<Rightarrow> Unstructured \<Rightarrow> Unstructured list \<Rightarrow> error + Unstructured list" where
  "ChildResourcePatcherChain_Patch [] cr childResources = Inr childResources"
| "ChildResourcePatcherChain_Patch (p # ps) cr childResources =
     (case p cr childResources of
        Inl err \<Rightarrow> Inl err
      | Inr patched \<Rightarrow> ChildResourcePatcherChain_Patch ps cr patched)"

record 'w TemplatingReconciler =
  kube :: "'w Client"
  newParentResource :: "unit \<Rightarrow> Unstructured"
  resourcePath :: string
  shortWait :: Duration
  longWait :: Duration
  templatingEngine :: TemplatingEngine
  childResourcePatcher :: "ChildResourcePatcher list"

record Request =
  NamespacedName :: NamespacedName

record Result =
  Requeue :: bool
  RequeueAfter :: Duration

text \<open>
  The logger of the reconciler is its list of logged messages: \<open>onlyLog\<close> logs the text
  of an error and does nothing for \<open>nil\<close>.
\<close>

definition onlyLog :: "error option \<Rightarrow> string list \<Rightarrow> string list" where
  "onlyLog err logged = (case err of None \<Rightarrow> logged | Some e \<Rightarrow> logged @ [Error e])"

text \<open>
  The loop over the children of \<open>Reconcile\<close>: it leaves at the first child whose
  \<open>Apply\<close> fails, with that child and its error, and runs to the end otherwise.
\<close>

fun applyChildren :: "'w Client \<Rightarrow> Unstructured list \<Rightarrow> 'w \<Rightarrow> (Unstructured \<times> error) option \<times> 'w" where
  "applyChildren c [] w = (None, w)"
| "applyChildren c (obj # rest) w =
     (case Apply c obj w of
        (Some err, w1) \<Rightarrow> (Some (obj, err), w1)
      | (None, w1) \<Rightarrow> applyChildren c rest w1)"

text \<open>The message put in front of the error of a failed \<open>Apply\<close>.\<close>

definition applyMessage :: "Unstructured \<Rightarrow> string" where
  "applyMessage obj =
     errApply @ '': '' @ GetName obj @ ''/'' @ GetNamespace obj @ '' of type ''
       @ GroupVersionKind_String (GetGroupVersionKind obj)"

text \<open>
  \<open>Reconcile\<close> returns its result and error, the state of the client and the messages
  it logged. \<open>now\<close> is the clock read by the condition constructors.
\<close>

definition Reconcile ::
  "'w TemplatingReconciler \<Rightarrow> Time \<Rightarrow> Request \<Rightarrow> 'w \<Rightarrow> (Result \<times> error option) \<times> 'w \<times> string list" where
  "Reconcile r now req w =
     (case Get (kube r) (NamespacedName req) (newParentResource r ()) w of
        (Inl err, w1) \<Rightarrow>
          ((\<lparr>Requeue = False, RequeueAfter = 0\<rparr>, Wrap (IgnoreNotFound (Some err)) errGetResource), w1, [])
      | (Inr cr, w1) \<Rightarrow>
          if WasDeleted cr then ((\<lparr>Requeue = False, RequeueAfter = 0\<rparr>, None), w1, [])
          else
            (case templatingEngine r cr of
               Inl err \<Rightarrow>
                 (let (serr, cr1) = SetConditions cr [ReconcileError now (Wrapped err errTemplatingOperation)];
                      logged = onlyLog serr [];
                      (uerr, w2) = StatusUpdate (kube r) cr1 w1
                  in ((\<lparr>Requeue = False, RequeueAfter = shortWait r\<rparr>,
                       Wrap uerr errUpdateResourceStatus), w2, logged))
             | Inr templated \<Rightarrow>
                 (case ChildResourcePatcherChain_Patch (childResourcePatcher r) cr templated of
                    Inl err \<Rightarrow>
                      (let (serr, cr1) = SetConditions cr [ReconcileError now (Wrapped err errChildResourcePatchers)];
                           logged = onlyLog serr [];
                           (uerr, w2) = StatusUpdate (kube r) cr1 w1
                       in ((\<lparr>Requeue = False, RequeueAfter = shortWait r\<rparr>,
                            Wrap uerr errUpdateResourceStatus), w2, logged))
                  | Inr childResources \<Rightarrow>
                      (case applyChildren (kube r) childResources w1 of
                         (Some (obj, err), w2) \<Rightarrow>
                           (let (serr, cr1) = SetConditions cr [ReconcileError now (Wrapped err (applyMessage obj))];
                                logged = onlyLog serr [];
                                (uerr, w3) = StatusUpdate (kube r) cr1 w2
                            in ((\<lparr>Requeue = False, RequeueAfter = shortWait r\<rparr>,
                                 Wrap uerr errUpdateResourceStatus), w3, logged))
                       | (None, w2) \<Rightarrow>
                           (let (serr, cr1) = SetConditions cr [ReconcileSuccess now];
                                logged = onlyLog serr [];
                                (uerr, w3) = StatusUpdate (kube r) cr1 w2
                            in ((\<lparr>Requeue = False, RequeueAfter = longWait r\<rparr>,
                                 Wrap uerr errUpdateResourceStatus), w3, logged))))))"

section \<open>Observing the calls on the store\<close>

text \<open>
  The calls a client receives are observed by putting a recorder in front of it: the
  recorder forwards each call and appends it, with the error it returned, to a list kept
  beside the state of the client.
\<close>

datatype Call =
    GetCall NamespacedName Unstructured
  | CreateCall Unstructured
  | DeleteCall Unstructured
  | UpdateCall Unstructured
  | PatchCall Unstructured Patch
  | DeleteAllOfCall Unstructured
  | StatusUpdateCall Unstructured

type_synonym Event = "Call \<times> error option"

fun outcome :: "error + 'a \<Rightarrow> error option" where
  "outcome (Inl err) = Some err"
| "outcome (Inr x) = None"

definition recording :: "'w Client \<Rightarrow> ('w \<times> Event list) Client" where
  "recording c =
     \<lparr>Get = (\<lambda>key into (w, tr).
        case Get c key into w of (res, w1) \<Rightarrow> (res, (w1, tr @ [(GetCall key into, outcome res)]))),
      Create = (\<lambda>obj (w, tr).
        case Create c obj w of (err, w1) \<Rightarrow> (err, (w1, tr @ [(CreateCall obj, err)]))),
      Delete = (\<lambda>obj (w, tr).
        case Delete c obj w of (err, w1) \<Rightarrow> (err, (w1, tr @ [(DeleteCall obj, err)]))),
      Update = (\<lambda>obj (w, tr).
        case Update c obj w of (err, w1) \<Rightarrow> (err, (w1, tr @ [(UpdateCall obj, err)]))),
      Patch = (\<lambda>obj p (w, tr).
        case Patch c obj p w of (err, w1) \<Rightarrow> (err, (w1, tr @ [(PatchCall obj p, err)]))),
      DeleteAllOf = (\<lambda>obj (w, tr).
        case DeleteAllOf c obj w of (err, w1) \<Rightarrow> (err, (w1, tr @ [(DeleteAllOfCall obj, err)]))),
      StatusUpdate = (\<lambda>obj (w, tr).
        case StatusUpdate c obj w of (err, w1) \<Rightarrow> (err, (w1, tr @ [(StatusUpdateCall obj, err)])))\<rparr>"

fun isCreateOrPatch :: "Event \<Rightarrow> bool" where
  "isCreateOrPatch (CreateCall obj, err) = True"
| "isCreateOrPatch (PatchCall obj p, err) = True"
| "isCreateOrPatch ev = False"

fun isDelete :: "Event \<Rightarrow> bool" where
  "isDelete (DeleteCall obj, err) = True"
| "isDelete (DeleteAllOfCall obj, err) = True"
| "isDelete ev = False"

fun isStatusUpdate :: "Event \<Rightarrow> bool" where
  "isStatusUpdate (StatusUpdateCall obj, err) = True"
| "isStatusUpdate ev = False"

fun isGet :: "Event \<Rightarrow> bool" where
  "isGet (GetCall key into, err) = True"
| "isGet ev = False"

definition succeeded :: "Event \<Rightarrow> bool" where
  "succeeded ev = (snd ev = None)"

section \<open>A store\<close>

text \<open>
  Modelled from the spec: the ClusterStore of sections 2 and 6, which the reconciler only
  consumes. It holds objects under kind, namespace and name. \<open>get\<close> answers not-found for
  an identity it does not hold; \<open>create\<close> stores the object as given; \<open>mergePatch\<close> is
  the merge patch of section 4.2 and the glossary (a field present in the patch document
  overwrites the field of the target, a field absent from it is left untouched);
  \<open>updateStatus\<close> replaces the conditions of the stored object. These operations fail
  only where the identity is missing (or, for \<open>create\<close>, taken), and a patch of another
  type than the merge patch is refused. The client interface has three more methods
  (delete, update, delete-all-of), which the spec's store does not list; here they remove
  and replace stored objects.
\<close>

type_synonym ObjectKey = "GroupVersionKind \<times> NamespacedName"

type_synonym ClusterStore = "(ObjectKey \<times> Unstructured) list"

definition objectKey :: "Unstructured \<Rightarrow> ObjectKey" where
  "objectKey obj = (GetGroupVersionKind obj, \<lparr>Namespace = GetNamespace obj, Name = GetName obj\<rparr>)"

definition notFound :: error where
  "notFound = StatusError StatusReasonNotFound ''not found''"

definition alreadyExists :: error where
  "alreadyExists = StatusError StatusReasonAlreadyExists ''already exists''"

fun mergePatch :: "Unstructured \<Rightarrow> RawJSON \<Rightarrow> Unstructured" where
  "mergePatch target (RawJSON desired) =
     target\<lparr>GetDeletionTimestamp :=
              (case GetDeletionTimestamp desired of None \<Rightarrow> GetDeletionTimestamp target | Some t \<Rightarrow> Some t),
            GetConditions :=
              (if GetConditions desired = [] then GetConditions target else GetConditions desired),
            UnstructuredContent :=
              AList.merge (UnstructuredContent target) (UnstructuredContent desired)\<rparr>"

definition store_Get :: "NamespacedName \<Rightarrow> Unstructured \<Rightarrow> ClusterStore \<Rightarrow> (error + Unstructured) \<times> ClusterStore" where
  "store_Get key into w =
     (case map_of w (GetGroupVersionKind into, key) of
        None \<Rightarrow> (Inl notFound, w)
      | Some stored \<Rightarrow> (Inr stored, w))"

definition store_Create :: "Unstructured \<Rightarrow> ClusterStore \<Rightarrow> error option \<times> ClusterStore" where
  "store_Create obj w =
     (case map_of w (objectKey obj) of
        None \<Rightarrow> (None, w @ [(objectKey obj, obj)])
      | Some stored \<Rightarrow> (Some alreadyExists, w))"

definition store_Delete :: "Unstructured \<Rightarrow> ClusterStore \<Rightarrow> error option \<times> ClusterStore" where
  "store_Delete obj w =
     (case map_of w (objectKey obj) of
        None \<Rightarrow> (Some notFound, w)
      | Some stored \<Rightarrow> (None, AList.delete (objectKey obj) w))"

definition store_Update :: "Unstructured \<Rightarrow> ClusterStore \<Rightarrow> error option \<times> ClusterStore" where
  "store_Update obj w =
     (case map_of w (objectKey obj) of
        None \<Rightarrow> (Some notFound, w)
      | Some stored \<Rightarrow> (None, AList.update (objectKey obj) obj w))"

definition store_Patch :: "Unstructured \<Rightarrow> Patch \<Rightarrow> ClusterStore \<Rightarrow> error option \<times> ClusterStore" where
  "store_Patch target p w =
     (case map_of w (objectKey target) of
        None \<Rightarrow> (Some notFound, w)
      | Some stored \<Rightarrow>
          if PatchType p = MergePatchType
          then (None, AList.update (objectKey target) (mergePatch stored (Data p)) w)
          else (Some (PlainError ''unsupported patch type''), w))"

definition store_DeleteAllOf :: "Unstructured \<Rightarrow> ClusterStore \<Rightarrow> error option \<times> ClusterStore" where
  "store_DeleteAllOf obj w =
     (None, filter (\<lambda>kv. \<not> (fst (fst kv) = GetGroupVersionKind obj
                            \<and> Namespace (snd (fst kv)) = GetNamespace obj)) w)"

definition store_StatusUpdate :: "Unstructured \<Rightarrow> ClusterStore \<Rightarrow> error option \<times> ClusterStore" where
  "store_StatusUpdate obj w =
     (case map_of w (objectKey obj) of
        None \<Rightarrow> (Some notFound, w)
      | Some stored \<Rightarrow>
          (None, AList.update (objectKey obj) (stored\<lparr>GetConditions := GetConditions obj\<rparr>) w))"

definition clusterStore :: "ClusterStore Client" where
  "clusterStore =
     \<lparr>Get = store_Get, Create = store_Create, Delete = store_Delete, Update = store_Update,
      Patch = store_Patch, DeleteAllOf = store_DeleteAllOf, StatusUpdate = store_StatusUpdate\<rparr>"

text \<open>
  A store that has become unavailable for writing: it still answers \<open>get\<close>, and every
  call that would write returns the error \<open>unavailable\<close> and changes nothing.
\<close>

definition unavailable :: error where
  "unavailable = StatusError StatusReasonTimeout ''the server is unavailable''"

definition readOnly :: "'w Client \<Rightarrow> 'w Client" where
  "readOnly c =
     \<lparr>Get = Get c,
      Create = (\<lambda>obj w. (Some unavailable, w)),
      Delete = (\<lambda>obj w. (Some unavailable, w)),
      Update = (\<lambda>obj w. (Some unavailable, w)),
      Patch = (\<lambda>obj p w. (Some unavailable, w)),
      DeleteAllOf = (\<lambda>obj w. (Some unavailable, w)),
      StatusUpdate = (\<lambda>obj w. (Some unavailable, w))\<rparr>"

text \<open>A store that cannot be reached: every call returns the error \<open>unavailable\<close>.\<close>

definition unreachable :: "'w Client" where
  "unreachable =
     \<lparr>Get = (\<lambda>key into w. (Inl unavailable, w)),
      Create = (\<lambda>obj w. (Some unavailable, w)),
      Delete = (\<lambda>obj w. (Some unavailable, w)),
      Update = (\<lambda>obj w. (Some unavailable, w)),
      Patch = (\<lambda>obj p w. (Some unavailable, w)),
      DeleteAllOf = (\<lambda>obj w. (Some unavailable, w)),
      StatusUpdate = (\<lambda>obj w. (Some unavailable, w))\<rparr>"

section \<open>Sample resources\<close>

text \<open>
  A parent of the kind of the sample resource definition (\<open>WordpressInstance\<close>) and
  children of kind \<open>ConfigMap\<close>, for running the reconciler on concrete inputs with its
  default waits.
\<close>

definition sampleKind :: GroupVersionKind where
  "sampleKind =
     \<lparr>Group = ''wordpress.samples.stacks.crossplane.io'', Version = ''v1alpha1'',
      Kind = ''WordpressInstance''\<rparr>"

definition configMapKind :: GroupVersionKind where
  "configMapKind = \<lparr>Group = [], Version = ''v1'', Kind = ''ConfigMap''\<rparr>"

definition parentKey :: NamespacedName where
  "parentKey = \<lparr>Namespace = ''default'', Name = ''x''\<rparr>"

definition parentX :: Unstructured where
  "parentX =
     \<lparr>GetGroupVersionKind = sampleKind, GetName = ''x'', GetNamespace = ''default'',
      GetDeletionTimestamp = None, GetConditions = [], UnstructuredContent = []\<rparr>"

definition parentDeleted :: Unstructured where
  "parentDeleted = parentX\<lparr>GetDeletionTimestamp := Some 1\<rparr>"

definition childA :: Unstructured where
  "childA =
     \<lparr>GetGroupVersionKind = configMapKind, GetName = ''a'', GetNamespace = ''default'',
      GetDeletionTimestamp = None, GetConditions = [],
      UnstructuredContent = [(''data'', Object [(''k'', String ''v'')])]\<rparr>"

definition childB :: Unstructured where
  "childB = childA\<lparr>GetName := ''b''\<rparr>"

definition childC :: Unstructured where
  "childC = childA\<lparr>GetName := ''c''\<rparr>"

text \<open>
  \<open>childBad\<close> is the child \<open>b\<close> with a float that is not a number in its data: the
  copy accepts it and \<open>json.Marshal\<close> refuses it.
\<close>

definition childBad :: Unstructured where
  "childBad = childB\<lparr>UnstructuredContent := [(''data'', Object [(''k'', Float NaN)])]\<rparr>"

definition sampleRequest :: Request where
  "sampleRequest = \<lparr>NamespacedName = parentKey\<rparr>"

definition sampleReconciler ::
  "'w Client \<Rightarrow> TemplatingEngine \<Rightarrow> ChildResourcePatcher list \<Rightarrow> 'w TemplatingReconciler" where
  "sampleReconciler c engine patchers =
     \<lparr>kube = c,
      newParentResource = (\<lambda>u. \<lparr>GetGroupVersionKind = sampleKind, GetName = [], GetNamespace = [],
                                GetDeletionTimestamp = None, GetConditions = [],
                                UnstructuredContent = []\<rparr>),
      resourcePath = [],
      shortWait = defaultShortWait,
      longWait = defaultLongWait,
      templatingEngine = engine,
      childResourcePatcher = patchers\<rparr>"

definition engineFailure :: error where
  "engineFailure = PlainError ''chart not found''"

definition patcherFailure :: error where
  "patcherFailure = PlainError ''no owner''"

definition failingEngine :: TemplatingEngine where
  "failingEngine cr = Inl engineFailure"

definition identityPatcher :: ChildResourcePatcher where
  "identityPatcher cr childResources = Inr childResources"

definition failingPatcher :: ChildResourcePatcher where
  "failingPatcher cr childResources = Inl patcherFailure"

definition twoChildren :: TemplatingEngine where
  "twoChildren cr = Inr [childA, childB]"

definition oneChild :: TemplatingEngine where
  "oneChild cr = Inr [childA]"

definition badMiddleChild :: TemplatingEngine where
  "badMiddleChild cr = Inr [childA, childBad, childC]"

definition sampleStore :: ClusterStore where
  "sampleStore = [(objectKey parentX, parentX)]"

definition storeWithB :: ClusterStore where
  "storeWithB = [(objectKey parentX, parentX), (objectKey childB, childB)]"

section \<open>Reading a run\<close>

text \<open>The calls observed in a run of \<open>Reconcile\<close> behind a recorder.\<close>

definition observed :: "('a \<times> ('w \<times> Event list) \<times> 'b) \<Rightarrow> Event list" where
  "observed out = snd (fst (snd out))"

text \<open>The conditions of the error kind in the status of an object.\<close>

definition errorConditions :: "Unstructured \<Rightarrow> Condition list" where
  "errorConditions obj = filter (\<lambda>cond. Type cond = TypeError) (GetConditions obj)"

section \<open>Evaluating the store and the samples\<close>

lemmas store_defs = clusterStore_def store_Get_def store_Create_def store_Patch_def
  store_StatusUpdate_def objectKey_def notFound_def alreadyExists_def

lemmas sample_defs = sampleKind_def configMapKind_def parentKey_def parentX_def childA_def
  childB_def sampleRequest_def sampleReconciler_def sampleStore_def identityPatcher_def

lemmas run_defs = Reconcile_def Apply_def DeepCopyObject_def recording_def SetConditions_def ReconcileError_def
  ReconcileSuccess_def json_Marshal_def ConstantPatch_def WasDeleted_def onlyLog_def observed_def
  applyMessage_def GroupVersionKind_String_def

section \<open>What the recorder sees of a call\<close>

lemma recording_Get:
  "Get (recording c) key into (w, tr) =
     (fst (Get c key into w),
      (snd (Get c key into w), tr @ [(GetCall key into, outcome (fst (Get c key into w)))]))"
  by (simp add: recording_def split: prod.splits)

lemma recording_Create:
  "Create (recording c) obj (w, tr) =
     (fst (Create c obj w), (snd (Create c obj w), tr @ [(CreateCall obj, fst (Create c obj w))]))"
  by (simp add: recording_def split: prod.splits)

lemma recording_Patch:
  "Patch (recording c) obj p (w, tr) =
     (fst (Patch c obj p w), (snd (Patch c obj p w), tr @ [(PatchCall obj p, fst (Patch c obj p w))]))"
  by (simp add: recording_def split: prod.splits)

lemma recording_StatusUpdate:
  "StatusUpdate (recording c) obj (w, tr) =
     (fst (StatusUpdate c obj w),
      (snd (StatusUpdate c obj w), tr @ [(StatusUpdateCall obj, fst (StatusUpdate c obj w))]))"
  by (simp add: recording_def split: prod.splits)

text \<open>A get, a create and a patch are neither a status update nor a delete.\<close>

lemma kinds_disjoint:
  "isGet ev \<or> isCreateOrPatch ev \<Longrightarrow> \<not> isStatusUpdate ev \<and> \<not> isDelete ev"
  by (cases ev; cases "fst ev") auto

lemma no_status_update_mid:
  "\<forall>ev \<in> set mid. isGet ev \<or> isCreateOrPatch ev \<Longrightarrow> filter isStatusUpdate mid = []"
  by (simp add: filter_empty_conv kinds_disjoint)

lemma no_delete_mid:
  "\<forall>ev \<in> set mid. isGet ev \<or> isCreateOrPatch ev \<Longrightarrow> filter isDelete mid = []"
  by (simp add: filter_empty_conv kinds_disjoint)

lemma status_update_not_mid:
  "\<forall>ev \<in> set mid. isGet ev \<or> isCreateOrPatch ev \<Longrightarrow> (StatusUpdateCall obj, err) \<notin> set mid"
  by auto

section \<open>The calls of Apply and of the loop over the children\<close>

text \<open>
  One \<open>Apply\<close> adds gets, creates and patches to the recorded calls, at most one create
  or patch, and exactly one, which succeeded, when it returns no error.
\<close>

lemma Apply_recording_trace:
  assumes "Apply (recording c) obj (w, tr) = (err, (w1, tr1))"
  shows "\<exists>new. tr1 = tr @ new
           \<and> (\<forall>ev \<in> set new. isGet ev \<or> isCreateOrPatch ev)
           \<and> length (filter isCreateOrPatch new) \<le> 1
           \<and> length (filter (\<lambda>ev. isCreateOrPatch ev \<and> succeeded ev) new) = (if err = None then 1 else 0)
           \<and> (err = None \<longrightarrow> length (filter isCreateOrPatch new) = 1)"
proof (cases "Get c \<lparr>Namespace = GetNamespace obj, Name = GetName obj\<rparr> obj w")
  case (Pair res w2)
  show ?thesis
  proof (cases res)
    case (Inl e)
    show ?thesis
    proof (cases "IsNotFound e")
      case True
      then show ?thesis using assms Pair Inl
        by (cases "Create c obj w2"; cases "fst (Create c obj w2)")
           (auto simp: Apply_def DeepCopyObject_def recording_Get recording_Create succeeded_def)
    next
      case False
      then show ?thesis using assms Pair Inl
        by (auto simp: Apply_def DeepCopyObject_def recording_Get succeeded_def)
    qed
  next
    case (Inr existing)
    show ?thesis
    proof (cases "json_Marshal obj")
      case (Inl e)
      then show ?thesis using assms Pair Inr
        by (auto simp: Apply_def DeepCopyObject_def recording_Get succeeded_def)
    next
      case (Inr b)
      then show ?thesis using assms Pair \<open>res = Inr existing\<close>
        by (cases "Patch c existing (ConstantPatch MergePatchType b) w2")
           (auto simp: Apply_def DeepCopyObject_def recording_Get recording_Patch succeeded_def)
    qed
  qed
qed

lemma Apply_recording_count:
  assumes "Apply (recording c) obj (w, tr) = (err, (w1, tr1))"
  shows "length (filter isCreateOrPatch tr1) = length (filter isCreateOrPatch tr) +
           (case fst (Get c \<lparr>Namespace = GetNamespace obj, Name = GetName obj\<rparr> obj w) of
              Inl e \<Rightarrow> if IsNotFound e then 1 else 0
            | Inr existing \<Rightarrow> (case json_Marshal obj of Inl e \<Rightarrow> 0 | Inr patchJSON \<Rightarrow> 1))"
  using assms
  by (cases "Get c \<lparr>Namespace = GetNamespace obj, Name = GetName obj\<rparr> obj w")
     (auto simp: Apply_def DeepCopyObject_def recording_Get recording_Create recording_Patch
           split: sum.splits if_splits prod.splits)

lemma applyChildren_recording_trace:
  assumes "applyChildren (recording c) objs (w, tr) = (res, (w1, tr1))"
  shows "\<exists>new. tr1 = tr @ new
           \<and> (\<forall>ev \<in> set new. isGet ev \<or> isCreateOrPatch ev)
           \<and> (res = None \<longrightarrow> length (filter isCreateOrPatch new) = length objs
                \<and> length (filter (\<lambda>ev. isCreateOrPatch ev \<and> succeeded ev) new) = length objs)"
  using assms
proof (induction objs arbitrary: w tr)
  case Nil
  then show ?case by simp
next
  case (Cons obj rest)
  obtain err w2 tr2 where a: "Apply (recording c) obj (w, tr) = (err, (w2, tr2))"
    by (metis surj_pair)
  from Apply_recording_trace [OF a] obtain new1 where n1: "tr2 = tr @ new1"
    "\<forall>ev \<in> set new1. isGet ev \<or> isCreateOrPatch ev"
    "length (filter (\<lambda>ev. isCreateOrPatch ev \<and> succeeded ev) new1) = (if err = None then 1 else 0)"
    "err = None \<longrightarrow> length (filter isCreateOrPatch new1) = 1"
    by blast
  show ?case
  proof (cases err)
    case None
    with Cons.prems a have r: "applyChildren (recording c) rest (w2, tr2) = (res, (w1, tr1))"
      by simp
    from Cons.IH [OF r] obtain new2 where n2: "tr1 = tr2 @ new2"
      "\<forall>ev \<in> set new2. isGet ev \<or> isCreateOrPatch ev"
      "res = None \<longrightarrow> length (filter isCreateOrPatch new2) = length rest
                \<and> length (filter (\<lambda>ev. isCreateOrPatch ev \<and> succeeded ev) new2) = length rest"
      by blast
    have "tr1 = tr @ (new1 @ new2)" using n1 n2 by simp
    moreover have "\<forall>ev \<in> set (new1 @ new2). isGet ev \<or> isCreateOrPatch ev"
      using n1 n2 by auto
    moreover have "res = None \<longrightarrow> length (filter isCreateOrPatch (new1 @ new2)) = length (obj # rest)
                \<and> length (filter (\<lambda>ev. isCreateOrPatch ev \<and> succeeded ev) (new1 @ new2)) = length (obj # rest)"
      using n1 n2 None by simp
    ultimately show ?thesis by blast
  next
    case (Some e)
    with Cons.prems a have "res = Some (obj, e)" "tr1 = tr2" by simp_all
    then show ?thesis using n1 by auto
  qed
qed

lemma applyChildren_append:
  assumes "applyChildren c pre w = (None, w1)"
  shows "applyChildren c (pre @ post) w = applyChildren c post w1"
  using assms
proof (induction pre arbitrary: w)
  case Nil
  then show ?case by simp
next
  case (Cons obj pre)
  then show ?case
    by (cases "Apply c obj w"; cases "fst (Apply c obj w)") (auto split: option.splits)
qed

section \<open>Setting a condition\<close>

lemma setCondition_count:
  "length (filter (\<lambda>cond. Type cond = Type c) (setCondition cs c))
     = max 1 (length (filter (\<lambda>cond. Type cond = Type c) cs))"
  by (induction cs) auto

lemma setCondition_member:
  "\<exists>cond \<in> set (setCondition cs c). Type cond = Type c \<and> Message cond = Message c"
  by (induction cs) auto

lemma SetConditions_nil:
  "SetConditions cr conds = (serr, cr1) \<Longrightarrow> SetConditions cr conds = (None, cr1)"
  by (auto simp: SetConditions_def)

lemma SetConditions_error:
  assumes "SetConditions cr [ReconcileError now err] = (serr, cr1)"
  shows "(\<exists>cond \<in> set (errorConditions cr1). Message cond = Error err)
         \<and> length (errorConditions cr1) = max 1 (length (errorConditions cr))"
proof -
  have t: "Type (ReconcileError now err) = TypeError" and m: "Message (ReconcileError now err) = Error err"
    by (simp_all add: ReconcileError_def)
  have c: "GetConditions cr1 = setCondition (GetConditions cr) (ReconcileError now err)"
    using assms by (auto simp: SetConditions_def)
  from setCondition_member [of "GetConditions cr" "ReconcileError now err"] t m c
  have "\<exists>cond \<in> set (errorConditions cr1). Message cond = Error err"
    by (auto simp: errorConditions_def)
  moreover from setCondition_count [of "ReconcileError now err" "GetConditions cr"] t c
  have "length (errorConditions cr1) = max 1 (length (errorConditions cr))"
    by (simp add: errorConditions_def)
  ultimately show ?thesis by simp
qed

lemma labels_differ:
  "\<not> prefix errChildResourcePatchers (errTemplatingOperation @ s)
   \<and> \<not> prefix errTemplatingOperation (errChildResourcePatchers @ t)"
  by (simp add: errChildResourcePatchers_def errTemplatingOperation_def)

section \<open>The shape of a cycle\<close>

text \<open>
  A cycle behind a recorder is one of three: the load of the parent failed, the parent is
  being deleted, or the parent is live; a live cycle ends with one status update, and
  between the get of the parent and that update there are only gets, creates and patches.
\<close>

lemma finish_recording:
  "(case SetConditions cr [cond] of
      (serr, cr1) \<Rightarrow>
        (case StatusUpdate (recording c) cr1 (w1, tr) of
           (uerr, w2) \<Rightarrow> ((res, Wrap uerr label), w2, onlyLog serr [])))
   = ((res, Wrap (fst (StatusUpdate c (snd (SetConditions cr [cond])) w1)) label),
      (snd (StatusUpdate c (snd (SetConditions cr [cond])) w1),
       tr @ [(StatusUpdateCall (snd (SetConditions cr [cond])),
              fst (StatusUpdate c (snd (SetConditions cr [cond])) w1))]),
      [])"
  by (simp add: recording_StatusUpdate SetConditions_def onlyLog_def)

lemma Reconcile_load_failure:
  assumes "kube r = recording c"
    and "Get c (NamespacedName req) (newParentResource r ()) w = (Inl err, w1)"
  shows "Reconcile r now req (w, []) =
           ((\<lparr>Requeue = False, RequeueAfter = 0\<rparr>, Wrap (IgnoreNotFound (Some err)) errGetResource),
            (w1, [(GetCall (NamespacedName req) (newParentResource r ()), Some err)]), [])"
  using assms by (simp add: Reconcile_def recording_Get)

lemma Reconcile_deleted:
  assumes "kube r = recording c"
    and "Get c (NamespacedName req) (newParentResource r ()) w = (Inr cr, w1)"
    and "WasDeleted cr"
  shows "Reconcile r now req (w, []) =
           ((\<lparr>Requeue = False, RequeueAfter = 0\<rparr>, None),
            (w1, [(GetCall (NamespacedName req) (newParentResource r ()), None)]), [])"
  using assms by (simp add: Reconcile_def recording_Get)

lemma Reconcile_live:
  assumes k: "kube r = recording c"
    and g: "Get c (NamespacedName req) (newParentResource r ()) w = (Inr cr, w1)"
    and d: "\<not> WasDeleted cr"
  shows "\<exists>res uerr w2 mid cr1.
           Reconcile r now req (w, []) =
             ((res, Wrap uerr errUpdateResourceStatus),
              (w2, (GetCall (NamespacedName req) (newParentResource r ()), None) # mid
                     @ [(StatusUpdateCall cr1, uerr)]), [])
           \<and> (\<forall>ev \<in> set mid. isGet ev \<or> isCreateOrPatch ev)"
proof (cases "templatingEngine r cr")
  case (Inl e)
  have "\<exists>res uerr w2 cr1. Reconcile r now req (w, []) =
      ((res, Wrap uerr errUpdateResourceStatus),
       (w2, (GetCall (NamespacedName req) (newParentResource r ()), None) # []
          @ [(StatusUpdateCall cr1, uerr)]), [])"
    using k g d Inl
    by (simp add: Reconcile_def recording_Get finish_recording)
  then show ?thesis by (metis empty_iff list.set(1))
next
  case templ: (Inr templated)
  show ?thesis
  proof (cases "ChildResourcePatcherChain_Patch (childResourcePatcher r) cr templated")
    case (Inl e)
    have "\<exists>res uerr w2 cr1. Reconcile r now req (w, []) =
        ((res, Wrap uerr errUpdateResourceStatus),
         (w2, (GetCall (NamespacedName req) (newParentResource r ()), None) # []
            @ [(StatusUpdateCall cr1, uerr)]), [])"
      using k g d templ Inl
      by (simp add: Reconcile_def recording_Get finish_recording)
    then show ?thesis by (metis empty_iff list.set(1))
  next
    case (Inr children)
    obtain failed w2 tr2 where a: "applyChildren (recording c) children
        (w1, [(GetCall (NamespacedName req) (newParentResource r ()), None)]) = (failed, (w2, tr2))"
      by (metis surj_pair)
    from applyChildren_recording_trace [OF a] obtain mid where
      m: "tr2 = [(GetCall (NamespacedName req) (newParentResource r ()), None)] @ mid"
         "\<forall>ev \<in> set mid. isGet ev \<or> isCreateOrPatch ev"
      by blast
    have "\<exists>res uerr w3 cr1. Reconcile r now req (w, []) =
        ((res, Wrap uerr errUpdateResourceStatus),
         (w3, (GetCall (NamespacedName req) (newParentResource r ()), None) # mid
            @ [(StatusUpdateCall cr1, uerr)]), [])"
      using k g d templ Inr a m(1)
      by (cases failed) (auto simp: Reconcile_def recording_Get finish_recording)
    then show ?thesis using m(2) by blast
  qed
qed

lemma merge_self:
  assumes "distinct (map fst xs)" and "set ps \<subseteq> set xs"
  shows "AList.merge xs ps = xs"
  using assms(2)
proof (induction ps)
  case Nil
  then show ?case by simp
next
  case (Cons p ps)
  then have "map_of xs (fst p) = Some (snd p)"
    using assms(1) by simp
  then show ?case using Cons
    by (cases p) (simp add: AList.update_triv)
qed

section \<open>The cycle ends early for a parent that is gone or being deleted\<close>

text \<open>
  Claim C6. When the store answers the load of the parent with a not-found error,
  \<open>Reconcile\<close> returns no error and a result that asks for no requeue: \<open>Requeue\<close> is
  false and \<open>RequeueAfter\<close> is zero.
\<close>

theorem Reconcile_parent_not_found:
  assumes "Get (kube r) (NamespacedName req) (newParentResource r ()) w = (Inl err, w1)"
    and "IsNotFound err"
  shows "fst (Reconcile r now req w) = (\<lparr>Requeue = False, RequeueAfter = 0\<rparr>, None)"
  using assms by (simp add: Reconcile_def)

theorem Reconcile_parent_not_found_witness:
  "Get (kube (sampleReconciler clusterStore (\<lambda>cr. Inr [childA]) [])) (NamespacedName sampleRequest)
      (newParentResource (sampleReconciler clusterStore (\<lambda>cr. Inr [childA]) []) ()) []
     = (Inl notFound, [])
   \<and> IsNotFound notFound
   \<and> fst (Reconcile (sampleReconciler clusterStore (\<lambda>cr. Inr [childA]) []) 5 sampleRequest [])
     = (\<lparr>Requeue = False, RequeueAfter = 0\<rparr>, None)"
proof -
  have g: "Get (kube (sampleReconciler clusterStore (\<lambda>cr. Inr [childA]) [])) (NamespacedName sampleRequest)
      (newParentResource (sampleReconciler clusterStore (\<lambda>cr. Inr [childA]) []) ()) []
     = (Inl notFound, [])"
    by (simp add: store_defs sample_defs)
  have n: "IsNotFound notFound" by (simp add: notFound_def)
  from Reconcile_parent_not_found [OF g n] g n show ?thesis by simp
qed

text \<open>
  Claim C7. When the loaded parent carries a deletion marker, \<open>Reconcile\<close> returns no
  error and asks for no requeue; the only call the store receives is the get of the
  parent, and the state of the store is the one that get left.
\<close>

theorem Reconcile_parent_deleted:
  assumes "kube r = recording c"
    and "Get c (NamespacedName req) (newParentResource r ()) w = (Inr cr, w1)"
    and "WasDeleted cr"
  shows "Reconcile r now req (w, []) =
           ((\<lparr>Requeue = False, RequeueAfter = 0\<rparr>, None),
            (w1, [(GetCall (NamespacedName req) (newParentResource r ()), None)]), [])"
  using assms by (simp add: Reconcile_def recording_Get)

theorem Reconcile_parent_deleted_witness:
  "kube (sampleReconciler (recording clusterStore) (\<lambda>cr. Inr [childA]) []) = recording clusterStore
   \<and> Get clusterStore (NamespacedName sampleRequest)
        (newParentResource (sampleReconciler (recording clusterStore) (\<lambda>cr. Inr [childA]) []) ())
        [(objectKey parentDeleted, parentDeleted)]
      = (Inr parentDeleted, [(objectKey parentDeleted, parentDeleted)])
   \<and> WasDeleted parentDeleted
   \<and> Reconcile (sampleReconciler (recording clusterStore) (\<lambda>cr. Inr [childA]) []) 5 sampleRequest
        ([(objectKey parentDeleted, parentDeleted)], [])
      = ((\<lparr>Requeue = False, RequeueAfter = 0\<rparr>, None),
         ([(objectKey parentDeleted, parentDeleted)],
          [(GetCall (NamespacedName sampleRequest)
              (newParentResource (sampleReconciler (recording clusterStore) (\<lambda>cr. Inr [childA]) []) ()), None)]),
         [])"
proof -
  have k: "kube (sampleReconciler (recording clusterStore) (\<lambda>cr. Inr [childA]) []) = recording clusterStore"
    by (simp add: sampleReconciler_def)
  have g: "Get clusterStore (NamespacedName sampleRequest)
        (newParentResource (sampleReconciler (recording clusterStore) (\<lambda>cr. Inr [childA]) []) ())
        [(objectKey parentDeleted, parentDeleted)]
      = (Inr parentDeleted, [(objectKey parentDeleted, parentDeleted)])"
    by (simp add: store_defs sample_defs parentDeleted_def)
  have d: "WasDeleted parentDeleted"
    by (simp add: WasDeleted_def sample_defs parentDeleted_def)
  from Reconcile_parent_deleted [OF k g d] k g d show ?thesis by simp
qed

section \<open>The status write\<close>

text \<open>
  Claim C3 says the status of the parent is written once in every cycle, on every branch.
  A cycle on a parent that carries a deletion marker writes the status not once but never,
  with the parent there in the store; and so does a cycle whose load of the parent fails
  with an error other than not-found, which returns that error.
\<close>

theorem status_not_written_without_live_parent:
  "length (filter isStatusUpdate (observed (Reconcile
      (sampleReconciler (recording clusterStore) twoChildren [identityPatcher]) 5 sampleRequest
      ([(objectKey parentDeleted, parentDeleted)], [])))) = 0
   \<and> fst (Reconcile
      (sampleReconciler (recording unreachable) twoChildren [identityPatcher]) 5 sampleRequest
      (sampleStore, []))
     = (\<lparr>Requeue = False, RequeueAfter = 0\<rparr>, Some (Wrapped unavailable errGetResource))
   \<and> length (filter isStatusUpdate (observed (Reconcile
      (sampleReconciler (recording unreachable) twoChildren [identityPatcher]) 5 sampleRequest
      (sampleStore, [])))) = 0"
  by (simp add: run_defs store_defs sample_defs parentDeleted_def unreachable_def unavailable_def twoChildren_def)

text \<open>
  Claim C3, as the code has it. The status of the parent is written exactly once in every
  cycle that loaded the parent and found no deletion marker on it, whatever the client
  answers to any call of the cycle, the status write included: this covers the success of
  the cycle, the failure of templating, of the patchers and of a child, and a status write
  that fails itself. A cycle whose load of the parent failed, and a cycle on a parent
  being deleted, write no status.
\<close>

theorem Reconcile_status_written_once:
  assumes "kube r = recording c"
  shows "length (filter isStatusUpdate (observed (Reconcile r now req (w, [])))) =
           (case fst (Get c (NamespacedName req) (newParentResource r ()) w) of
              Inl err \<Rightarrow> 0
            | Inr cr \<Rightarrow> if WasDeleted cr then 0 else 1)"
proof (cases "Get c (NamespacedName req) (newParentResource r ()) w")
  case (Pair loaded w1)
  show ?thesis
  proof (cases loaded)
    case (Inl err)
    with Pair Reconcile_load_failure [OF assms] show ?thesis
      by (simp add: observed_def)
  next
    case (Inr cr)
    show ?thesis
    proof (cases "WasDeleted cr")
      case True
      with Pair Inr Reconcile_deleted [OF assms] show ?thesis
        by (simp add: observed_def)
    next
      case False
      from Reconcile_live [OF assms _ False, of req w w1 now] Pair Inr
      obtain res uerr w2 mid cr1 where
        "Reconcile r now req (w, []) =
             ((res, Wrap uerr errUpdateResourceStatus),
              (w2, (GetCall (NamespacedName req) (newParentResource r ()), None) # mid
                     @ [(StatusUpdateCall cr1, uerr)]), [])"
        "\<forall>ev \<in> set mid. isGet ev \<or> isCreateOrPatch ev"
        by auto
      then show ?thesis using Pair Inr False
        by (simp add: observed_def no_status_update_mid)
    qed
  qed
qed

theorem Reconcile_status_written_once_witness:
  "kube (sampleReconciler (recording clusterStore) twoChildren [identityPatcher]) = recording clusterStore
   \<and> length (filter isStatusUpdate (observed (Reconcile
        (sampleReconciler (recording clusterStore) twoChildren [identityPatcher]) 5 sampleRequest
        (sampleStore, [])))) = 1"
proof -
  have k: "kube (sampleReconciler (recording clusterStore) twoChildren [identityPatcher]) = recording clusterStore"
    by (simp add: sampleReconciler_def)
  have g: "fst (Get clusterStore (NamespacedName sampleRequest)
        (newParentResource (sampleReconciler (recording clusterStore) twoChildren [identityPatcher]) ())
        sampleStore) = Inr parentX"
    by (simp add: store_defs sample_defs)
  have d: "\<not> WasDeleted parentX"
    by (simp add: WasDeleted_def parentX_def)
  from Reconcile_status_written_once [OF k, of 5 sampleRequest sampleStore] k g d
  show ?thesis by simp
qed

text \<open>
  Claim C5. Whenever a cycle has written the status of the parent, the error it returns is
  the error of that write under the label of the status update, and no error at all when
  the write succeeded, on failure branches too.
\<close>

theorem Reconcile_returns_status_write_error:
  assumes "kube r = recording c"
    and "(StatusUpdateCall cr1, uerr) \<in> set (observed (Reconcile r now req (w, [])))"
  shows "snd (fst (Reconcile r now req (w, []))) =
           (case uerr of None \<Rightarrow> None | Some e \<Rightarrow> Some (Wrapped e errUpdateResourceStatus))"
proof (cases "Get c (NamespacedName req) (newParentResource r ()) w")
  case (Pair loaded w1)
  show ?thesis
  proof (cases loaded)
    case (Inl err)
    with Pair Reconcile_load_failure [OF assms(1)] assms(2) show ?thesis
      by (simp add: observed_def)
  next
    case (Inr cr)
    show ?thesis
    proof (cases "WasDeleted cr")
      case True
      with Pair Inr Reconcile_deleted [OF assms(1)] assms(2) show ?thesis
        by (simp add: observed_def)
    next
      case False
      from Reconcile_live [OF assms(1) _ False, of req w w1 now] Pair Inr
      obtain res uerr' w2 mid cr1' where
        *: "Reconcile r now req (w, []) =
             ((res, Wrap uerr' errUpdateResourceStatus),
              (w2, (GetCall (NamespacedName req) (newParentResource r ()), None) # mid
                     @ [(StatusUpdateCall cr1', uerr')]), [])"
        and **: "\<forall>ev \<in> set mid. isGet ev \<or> isCreateOrPatch ev"
        by auto
      from ** have "(StatusUpdateCall cr1, uerr) \<notin> set mid"
        by (rule status_update_not_mid)
      with assms(2) * have "uerr = uerr'"
        by (simp add: observed_def)
      with * show ?thesis
        by (cases uerr') simp_all
    qed
  qed
qed

theorem Reconcile_returns_status_write_error_witness:
  "kube (sampleReconciler (recording (readOnly clusterStore)) failingEngine [identityPatcher])
     = recording (readOnly clusterStore)
   \<and> (StatusUpdateCall
         (parentX\<lparr>GetConditions := [ReconcileError 5 (Wrapped engineFailure errTemplatingOperation)]\<rparr>),
        Some unavailable)
       \<in> set (observed (Reconcile
           (sampleReconciler (recording (readOnly clusterStore)) failingEngine [identityPatcher])
           5 sampleRequest (sampleStore, [])))
   \<and> snd (fst (Reconcile
           (sampleReconciler (recording (readOnly clusterStore)) failingEngine [identityPatcher])
           5 sampleRequest (sampleStore, [])))
       = Some (Wrapped unavailable errUpdateResourceStatus)
   \<and> kube (sampleReconciler (recording clusterStore) failingEngine [identityPatcher])
     = recording clusterStore
   \<and> (StatusUpdateCall
         (parentX\<lparr>GetConditions := [ReconcileError 5 (Wrapped engineFailure errTemplatingOperation)]\<rparr>),
        None)
       \<in> set (observed (Reconcile
           (sampleReconciler (recording clusterStore) failingEngine [identityPatcher])
           5 sampleRequest (sampleStore, [])))
   \<and> snd (fst (Reconcile
           (sampleReconciler (recording clusterStore) failingEngine [identityPatcher])
           5 sampleRequest (sampleStore, [])))
       = None"
proof -
  have k1: "kube (sampleReconciler (recording (readOnly clusterStore)) failingEngine [identityPatcher])
     = recording (readOnly clusterStore)"
    by (simp add: sampleReconciler_def)
  have m1: "(StatusUpdateCall
         (parentX\<lparr>GetConditions := [ReconcileError 5 (Wrapped engineFailure errTemplatingOperation)]\<rparr>),
        Some unavailable)
       \<in> set (observed (Reconcile
           (sampleReconciler (recording (readOnly clusterStore)) failingEngine [identityPatcher])
           5 sampleRequest (sampleStore, [])))"
    by (simp add: run_defs store_defs sample_defs failingEngine_def readOnly_def unavailable_def)
  have k2: "kube (sampleReconciler (recording clusterStore) failingEngine [identityPatcher])
     = recording clusterStore"
    by (simp add: sampleReconciler_def)
  have m2: "(StatusUpdateCall
         (parentX\<lparr>GetConditions := [ReconcileError 5 (Wrapped engineFailure errTemplatingOperation)]\<rparr>),
        None)
       \<in> set (observed (Reconcile
           (sampleReconciler (recording clusterStore) failingEngine [identityPatcher])
           5 sampleRequest (sampleStore, [])))"
    by (simp add: run_defs store_defs sample_defs failingEngine_def readOnly_def unavailable_def)
  from Reconcile_returns_status_write_error [OF k1 m1]
       Reconcile_returns_status_write_error [OF k2 m2] k1 m1 k2 m2
  show ?thesis by simp
qed

section \<open>A failure of the templating engine or of the patchers\<close>

text \<open>
  Claim C4. When the templating engine fails, or it succeeds and the chain of patchers
  fails, the cycle sets one condition of the error kind, whose message is the label of the
  phase (\<open>templating operation failed\<close> or \<open>child resource patchers failed\<close>), a
  colon and the text of the cause; it writes the status; it returns the short wait as
  \<open>RequeueAfter\<close>; and the store has received the get of the parent and the status
  update only, so no child was applied. The status written holds exactly one condition of
  the error kind when the parent was loaded with at most one. A message that starts with
  one label never starts with the other.
\<close>

theorem Reconcile_phase_failure:
  assumes "kube r = recording c"
    and "Get c (NamespacedName req) (newParentResource r ()) w = (Inr cr, w1)"
    and "\<not> WasDeleted cr"
    and "templatingEngine r cr = Inl cause \<and> label = errTemplatingOperation
         \<or> (\<exists>templated. templatingEngine r cr = Inr templated
              \<and> ChildResourcePatcherChain_Patch (childResourcePatcher r) cr templated = Inl cause)
           \<and> label = errChildResourcePatchers"
    and "SetConditions cr [ReconcileError now (Wrapped cause label)] = (serr, cr1)"
    and "StatusUpdate c cr1 w1 = (uerr, w2)"
  shows "Reconcile r now req (w, []) =
           ((\<lparr>Requeue = False, RequeueAfter = shortWait r\<rparr>, Wrap uerr errUpdateResourceStatus),
            (w2, [(GetCall (NamespacedName req) (newParentResource r ()), None),
                  (StatusUpdateCall cr1, uerr)]),
            [])
         \<and> (\<exists>cond \<in> set (errorConditions cr1). Message cond = label @ '': '' @ Error cause)
         \<and> (length (errorConditions cr) \<le> 1 \<longrightarrow> length (errorConditions cr1) = 1)
         \<and> \<not> prefix errChildResourcePatchers (errTemplatingOperation @ s)
         \<and> \<not> prefix errTemplatingOperation (errChildResourcePatchers @ t)"
proof -
  have run: "Reconcile r now req (w, []) =
           ((\<lparr>Requeue = False, RequeueAfter = shortWait r\<rparr>, Wrap uerr errUpdateResourceStatus),
            (w2, [(GetCall (NamespacedName req) (newParentResource r ()), None),
                  (StatusUpdateCall cr1, uerr)]),
            [])"
    using assms(1-4,6) SetConditions_nil [OF assms(5)]
    by (auto simp: Reconcile_def recording_Get recording_StatusUpdate onlyLog_def)
  from SetConditions_error [OF assms(5)]
  have cond: "\<exists>cond \<in> set (errorConditions cr1). Message cond = label @ '': '' @ Error cause"
    and count: "length (errorConditions cr1) = max 1 (length (errorConditions cr))"
    by simp_all
  from count have "length (errorConditions cr) \<le> 1 \<longrightarrow> length (errorConditions cr1) = 1"
    by simp
  with run cond labels_differ [of s t] show ?thesis by simp
qed

theorem Reconcile_phase_failure_witness:
  "kube (sampleReconciler (recording clusterStore) failingEngine [identityPatcher]) = recording clusterStore
   \<and> Get clusterStore (NamespacedName sampleRequest)
        (newParentResource (sampleReconciler (recording clusterStore) failingEngine [identityPatcher]) ())
        sampleStore = (Inr parentX, sampleStore)
   \<and> WasDeleted parentX = False
   \<and> templatingEngine (sampleReconciler (recording clusterStore) failingEngine [identityPatcher]) parentX
        = Inl engineFailure
   \<and> SetConditions parentX [ReconcileError 5 (Wrapped engineFailure errTemplatingOperation)]
        = (None, parentX\<lparr>GetConditions := [ReconcileError 5 (Wrapped engineFailure errTemplatingOperation)]\<rparr>)
   \<and> StatusUpdate clusterStore
        (parentX\<lparr>GetConditions := [ReconcileError 5 (Wrapped engineFailure errTemplatingOperation)]\<rparr>)
        sampleStore
        = (None, [(objectKey parentX,
                   parentX\<lparr>GetConditions := [ReconcileError 5 (Wrapped engineFailure errTemplatingOperation)]\<rparr>)])
   \<and> Reconcile (sampleReconciler (recording clusterStore) failingEngine [identityPatcher]) 5 sampleRequest
        (sampleStore, []) =
        ((\<lparr>Requeue = False, RequeueAfter = defaultShortWait\<rparr>, None),
         ([(objectKey parentX,
            parentX\<lparr>GetConditions := [ReconcileError 5 (Wrapped engineFailure errTemplatingOperation)]\<rparr>)],
          [(GetCall (NamespacedName sampleRequest)
              (newParentResource (sampleReconciler (recording clusterStore) failingEngine [identityPatcher]) ()),
            None),
           (StatusUpdateCall
              (parentX\<lparr>GetConditions := [ReconcileError 5 (Wrapped engineFailure errTemplatingOperation)]\<rparr>),
            None)]),
         [])
   \<and> map Message (errorConditions
        (parentX\<lparr>GetConditions := [ReconcileError 5 (Wrapped engineFailure errTemplatingOperation)]\<rparr>))
        = [''templating operation failed: chart not found'']
   \<and> length (errorConditions parentX) \<le> 1
   \<and> templatingEngine (sampleReconciler (recording clusterStore) twoChildren [identityPatcher, failingPatcher]) parentX
        = Inr [childA, childB]
   \<and> ChildResourcePatcherChain_Patch
        (childResourcePatcher (sampleReconciler (recording clusterStore) twoChildren [identityPatcher, failingPatcher]))
        parentX [childA, childB] = Inl patcherFailure
   \<and> Reconcile (sampleReconciler (recording clusterStore) twoChildren [identityPatcher, failingPatcher]) 5
        sampleRequest (sampleStore, []) =
        ((\<lparr>Requeue = False, RequeueAfter = defaultShortWait\<rparr>, None),
         ([(objectKey parentX,
            parentX\<lparr>GetConditions := [ReconcileError 5 (Wrapped patcherFailure errChildResourcePatchers)]\<rparr>)],
          [(GetCall (NamespacedName sampleRequest)
              (newParentResource (sampleReconciler (recording clusterStore) twoChildren [identityPatcher, failingPatcher]) ()),
            None),
           (StatusUpdateCall
              (parentX\<lparr>GetConditions := [ReconcileError 5 (Wrapped patcherFailure errChildResourcePatchers)]\<rparr>),
            None)]),
         [])
   \<and> map Message (errorConditions
        (parentX\<lparr>GetConditions := [ReconcileError 5 (Wrapped patcherFailure errChildResourcePatchers)]\<rparr>))
        = [''child resource patchers failed: no owner'']"
proof -
  let ?r1 = "sampleReconciler (recording clusterStore) failingEngine [identityPatcher]"
  let ?r2 = "sampleReconciler (recording clusterStore) twoChildren [identityPatcher, failingPatcher]"
  let ?c1 = "parentX\<lparr>GetConditions := [ReconcileError 5 (Wrapped engineFailure errTemplatingOperation)]\<rparr>"
  let ?c2 = "parentX\<lparr>GetConditions := [ReconcileError 5 (Wrapped patcherFailure errChildResourcePatchers)]\<rparr>"
  have k1: "kube ?r1 = recording clusterStore" and k2: "kube ?r2 = recording clusterStore"
    by (simp_all add: sampleReconciler_def)
  have g1: "Get clusterStore (NamespacedName sampleRequest) (newParentResource ?r1 ()) sampleStore
              = (Inr parentX, sampleStore)"
    and g2: "Get clusterStore (NamespacedName sampleRequest) (newParentResource ?r2 ()) sampleStore
              = (Inr parentX, sampleStore)"
    by (simp_all add: store_defs sample_defs)
  have d: "\<not> WasDeleted parentX"
    by (simp add: WasDeleted_def parentX_def)
  have e1: "templatingEngine ?r1 parentX = Inl engineFailure"
    by (simp add: sampleReconciler_def failingEngine_def)
  then have t1: "templatingEngine ?r1 parentX = Inl engineFailure \<and> errTemplatingOperation = errTemplatingOperation
      \<or> (\<exists>templated. templatingEngine ?r1 parentX = Inr templated
            \<and> ChildResourcePatcherChain_Patch (childResourcePatcher ?r1) parentX templated = Inl engineFailure)
          \<and> errTemplatingOperation = errChildResourcePatchers"
    by simp
  have e2: "templatingEngine ?r2 parentX = Inr [childA, childB]"
    by (simp add: sampleReconciler_def twoChildren_def)
  have p2: "ChildResourcePatcherChain_Patch (childResourcePatcher ?r2) parentX [childA, childB] = Inl patcherFailure"
    by (simp add: sampleReconciler_def identityPatcher_def failingPatcher_def)
  from e2 p2
  have t2: "templatingEngine ?r2 parentX = Inl patcherFailure \<and> errChildResourcePatchers = errTemplatingOperation
      \<or> (\<exists>templated. templatingEngine ?r2 parentX = Inr templated
            \<and> ChildResourcePatcherChain_Patch (childResourcePatcher ?r2) parentX templated = Inl patcherFailure)
          \<and> errChildResourcePatchers = errChildResourcePatchers"
    by blast
  have s1: "SetConditions parentX [ReconcileError 5 (Wrapped engineFailure errTemplatingOperation)] = (None, ?c1)"
    and s2: "SetConditions parentX [ReconcileError 5 (Wrapped patcherFailure errChildResourcePatchers)] = (None, ?c2)"
    by (simp_all add: SetConditions_def parentX_def)
  have u1: "StatusUpdate clusterStore ?c1 sampleStore = (None, [(objectKey parentX, ?c1)])"
    and u2: "StatusUpdate clusterStore ?c2 sampleStore = (None, [(objectKey parentX, ?c2)])"
    by (simp_all add: store_defs sample_defs)
  have l: "length (errorConditions parentX) \<le> 1"
    by (simp add: errorConditions_def parentX_def)
  have m1: "map Message (errorConditions ?c1) = [''templating operation failed: chart not found'']"
    and m2: "map Message (errorConditions ?c2) = [''child resource patchers failed: no owner'']"
    by (simp_all add: errorConditions_def ReconcileError_def errTemplatingOperation_def
        errChildResourcePatchers_def engineFailure_def patcherFailure_def)
  have sw: "shortWait ?r1 = defaultShortWait" "shortWait ?r2 = defaultShortWait"
    by (simp_all add: sampleReconciler_def)
  from Reconcile_phase_failure [OF k1 g1 d t1 s1 u1, of "[]" "[]"]
       Reconcile_phase_failure [OF k2 g2 d t2 s2 u2, of "[]" "[]"]
       k1 g1 d e1 s1 u1 l m1 m2 e2 p2 sw
  show ?thesis by simp
qed

section \<open>The first child that fails\<close>

text \<open>
  Claim C2 says that exactly K creates and patches are observed when the first K children
  apply and child K+1 fails. With K = 0 and a first child whose create fails, the store
  has observed one create, the failing one.
\<close>

theorem failing_create_is_observed:
  "applyChildren (recording (readOnly clusterStore)) []
      (sampleStore, [(GetCall parentKey (newParentResource
          (sampleReconciler (recording (readOnly clusterStore)) oneChild [identityPatcher]) ()), None)])
     = (None, (sampleStore, [(GetCall parentKey (newParentResource
          (sampleReconciler (recording (readOnly clusterStore)) oneChild [identityPatcher]) ()), None)]))
   \<and> fst (Apply (recording (readOnly clusterStore)) childA
      (sampleStore, [(GetCall parentKey (newParentResource
          (sampleReconciler (recording (readOnly clusterStore)) oneChild [identityPatcher]) ()), None)]))
     = Some (Wrapped unavailable errCreateChildResource)
   \<and> filter isCreateOrPatch (observed (Reconcile
        (sampleReconciler (recording (readOnly clusterStore)) oneChild [identityPatcher]) 5 sampleRequest
        (sampleStore, [])))
     = [(CreateCall childA, Some unavailable)]"
  by (simp add: run_defs store_defs sample_defs readOnly_def unavailable_def oneChild_def)

text \<open>
  Claim C2, as the code has it. When the first K children apply and child K+1 fails, the
  loop stops there: the calls observed are those up to the failing \<open>Apply\<close> followed by
  the status update alone, so no call is made for a later child. Among them exactly K
  creates and patches succeeded; the failing child adds one more create or patch, the one
  that failed, when it failed in its create or its patch, and none when it failed in its
  get or in serialization. The status written carries a condition of the error kind whose
  message names the failing child's name, namespace and kind, and ends with its error.
\<close>

theorem Reconcile_stops_at_failing_child:
  assumes "kube r = recording c"
    and "Get c (NamespacedName req) (newParentResource r ()) w = (Inr cr, w1)"
    and "\<not> WasDeleted cr"
    and "templatingEngine r cr = Inr templated"
    and "ChildResourcePatcherChain_Patch (childResourcePatcher r) cr templated = Inr (pre @ obj # post)"
    and "applyChildren (recording c) pre
           (w1, [(GetCall (NamespacedName req) (newParentResource r ()), None)]) = (None, (w2, tr2))"
    and "Apply (recording c) obj (w2, tr2) = (Some err, (w3, tr3))"
    and "SetConditions cr [ReconcileError now (Wrapped err (applyMessage obj))] = (serr, cr1)"
    and "StatusUpdate c cr1 w3 = (uerr, w4)"
  shows "Reconcile r now req (w, []) =
           ((\<lparr>Requeue = False, RequeueAfter = shortWait r\<rparr>, Wrap uerr errUpdateResourceStatus),
            (w4, tr3 @ [(StatusUpdateCall cr1, uerr)]), [])
         \<and> length (filter (\<lambda>ev. isCreateOrPatch ev \<and> succeeded ev) tr3) = length pre
         \<and> length (filter isCreateOrPatch tr3) = length pre +
             (case fst (Get c \<lparr>Namespace = GetNamespace obj, Name = GetName obj\<rparr> obj w2) of
                Inl e \<Rightarrow> if IsNotFound e then 1 else 0
              | Inr existing \<Rightarrow> (case json_Marshal obj of Inl e \<Rightarrow> 0 | Inr patchJSON \<Rightarrow> 1))
         \<and> (\<exists>cond \<in> set (errorConditions cr1).
               Message cond = ''apply failed: '' @ GetName obj @ ''/'' @ GetNamespace obj
                 @ '' of type '' @ Group (GetGroupVersionKind obj) @ ''/''
                 @ Version (GetGroupVersionKind obj) @ '', Kind='' @ Kind (GetGroupVersionKind obj)
                 @ '': '' @ Error err)"
proof -
  have loop: "applyChildren (recording c) (pre @ obj # post)
           (w1, [(GetCall (NamespacedName req) (newParentResource r ()), None)])
         = (Some (obj, err), (w3, tr3))"
    using applyChildren_append [OF assms(6), of "obj # post"] assms(7) by simp
  have run: "Reconcile r now req (w, []) =
           ((\<lparr>Requeue = False, RequeueAfter = shortWait r\<rparr>, Wrap uerr errUpdateResourceStatus),
            (w4, tr3 @ [(StatusUpdateCall cr1, uerr)]), [])"
    using assms(1-5,9) SetConditions_nil [OF assms(8)] loop
    by (simp add: Reconcile_def recording_Get recording_StatusUpdate onlyLog_def)
  from applyChildren_recording_trace [OF assms(6)] obtain new where
    n: "tr2 = [(GetCall (NamespacedName req) (newParentResource r ()), None)] @ new"
       "length (filter isCreateOrPatch new) = length pre"
       "length (filter (\<lambda>ev. isCreateOrPatch ev \<and> succeeded ev) new) = length pre"
    by blast
  from Apply_recording_trace [OF assms(7)] obtain new1 where
    n1: "tr3 = tr2 @ new1"
        "length (filter (\<lambda>ev. isCreateOrPatch ev \<and> succeeded ev) new1) = 0"
    by auto
  have succ: "length (filter (\<lambda>ev. isCreateOrPatch ev \<and> succeeded ev) tr3) = length pre"
    using n n1 by simp
  have "length (filter isCreateOrPatch tr2) = length pre"
    using n by simp
  with Apply_recording_count [OF assms(7)]
  have total: "length (filter isCreateOrPatch tr3) = length pre +
             (case fst (Get c \<lparr>Namespace = GetNamespace obj, Name = GetName obj\<rparr> obj w2) of
                Inl e \<Rightarrow> if IsNotFound e then 1 else 0
              | Inr existing \<Rightarrow> (case json_Marshal obj of Inl e \<Rightarrow> 0 | Inr patchJSON \<Rightarrow> 1))"
    by simp
  from SetConditions_error [OF assms(8)]
  have "\<exists>cond \<in> set (errorConditions cr1). Message cond = applyMessage obj @ '': '' @ Error err"
    by simp
  then have cond: "\<exists>cond \<in> set (errorConditions cr1).
               Message cond = ''apply failed: '' @ GetName obj @ ''/'' @ GetNamespace obj
                 @ '' of type '' @ Group (GetGroupVersionKind obj) @ ''/''
                 @ Version (GetGroupVersionKind obj) @ '', Kind='' @ Kind (GetGroupVersionKind obj)
                 @ '': '' @ Error err"
    by (simp add: applyMessage_def errApply_def GroupVersionKind_String_def)
  from run succ total cond show ?thesis by blast
qed

theorem Reconcile_stops_at_failing_child_witness:
  "kube (sampleReconciler (recording clusterStore) badMiddleChild [identityPatcher]) = recording clusterStore
   \<and> Get clusterStore (NamespacedName sampleRequest) (newParentResource (sampleReconciler (recording clusterStore) badMiddleChild [identityPatcher]) ()) storeWithB
        = (Inr parentX, storeWithB)
   \<and> WasDeleted parentX = False
   \<and> templatingEngine (sampleReconciler (recording clusterStore) badMiddleChild [identityPatcher]) parentX = Inr [childA, childBad, childC]
   \<and> ChildResourcePatcherChain_Patch (childResourcePatcher (sampleReconciler (recording clusterStore) badMiddleChild [identityPatcher])) parentX [childA, childBad, childC]
        = Inr ([childA] @ childBad # [childC])
   \<and> applyChildren (recording clusterStore) [childA]
        (storeWithB, [(GetCall (NamespacedName sampleRequest) (newParentResource (sampleReconciler (recording clusterStore) badMiddleChild [identityPatcher]) ()), None)])
        = (None, ([(objectKey parentX, parentX), (objectKey childB, childB), (objectKey childA, childA)],
          [(GetCall (NamespacedName sampleRequest) (newParentResource (sampleReconciler (recording clusterStore) badMiddleChild [identityPatcher]) ()), None),
           (GetCall \<lparr>Namespace = GetNamespace childA, Name = GetName childA\<rparr> childA, Some notFound),
           (CreateCall childA, None)]))
   \<and> Apply (recording clusterStore) childBad
        ([(objectKey parentX, parentX), (objectKey childB, childB), (objectKey childA, childA)],
          [(GetCall (NamespacedName sampleRequest) (newParentResource (sampleReconciler (recording clusterStore) badMiddleChild [identityPatcher]) ()), None),
           (GetCall \<lparr>Namespace = GetNamespace childA, Name = GetName childA\<rparr> childA, Some notFound),
           (CreateCall childA, None)])
        = (Some (PlainError (errMarshalJSON @ '': json: unsupported value: NaN'')),
           ([(objectKey parentX, parentX), (objectKey childB, childB), (objectKey childA, childA)],
          [(GetCall (NamespacedName sampleRequest) (newParentResource (sampleReconciler (recording clusterStore) badMiddleChild [identityPatcher]) ()), None),
           (GetCall \<lparr>Namespace = GetNamespace childA, Name = GetName childA\<rparr> childA, Some notFound),
           (CreateCall childA, None),
           (GetCall \<lparr>Namespace = GetNamespace childBad, Name = GetName childBad\<rparr> childBad, None)]))
   \<and> SetConditions parentX [ReconcileError 5 (Wrapped (PlainError (errMarshalJSON @ '': json: unsupported value: NaN'')) (applyMessage childBad))]
        = (None, (parentX\<lparr>GetConditions := [ReconcileError 5 (Wrapped (PlainError (errMarshalJSON @ '': json: unsupported value: NaN'')) (applyMessage childBad))]\<rparr>))
   \<and> StatusUpdate clusterStore (parentX\<lparr>GetConditions := [ReconcileError 5 (Wrapped (PlainError (errMarshalJSON @ '': json: unsupported value: NaN'')) (applyMessage childBad))]\<rparr>)
        [(objectKey parentX, parentX), (objectKey childB, childB), (objectKey childA, childA)]
        = (None, [(objectKey parentX, (parentX\<lparr>GetConditions := [ReconcileError 5 (Wrapped (PlainError (errMarshalJSON @ '': json: unsupported value: NaN'')) (applyMessage childBad))]\<rparr>)), (objectKey childB, childB), (objectKey childA, childA)])
   \<and> Reconcile (sampleReconciler (recording clusterStore) badMiddleChild [identityPatcher]) 5 sampleRequest (storeWithB, []) =
        ((\<lparr>Requeue = False, RequeueAfter = defaultShortWait\<rparr>, None),
         ([(objectKey parentX, (parentX\<lparr>GetConditions := [ReconcileError 5 (Wrapped (PlainError (errMarshalJSON @ '': json: unsupported value: NaN'')) (applyMessage childBad))]\<rparr>)), (objectKey childB, childB), (objectKey childA, childA)],
          [(GetCall (NamespacedName sampleRequest) (newParentResource (sampleReconciler (recording clusterStore) badMiddleChild [identityPatcher]) ()), None),
           (GetCall \<lparr>Namespace = GetNamespace childA, Name = GetName childA\<rparr> childA, Some notFound),
           (CreateCall childA, None),
           (GetCall \<lparr>Namespace = GetNamespace childBad, Name = GetName childBad\<rparr> childBad, None)]
          @ [(StatusUpdateCall (parentX\<lparr>GetConditions := [ReconcileError 5 (Wrapped (PlainError (errMarshalJSON @ '': json: unsupported value: NaN'')) (applyMessage childBad))]\<rparr>), None)]), [])
   \<and> length (filter (\<lambda>ev. isCreateOrPatch ev \<and> succeeded ev)
          [(GetCall (NamespacedName sampleRequest) (newParentResource (sampleReconciler (recording clusterStore) badMiddleChild [identityPatcher]) ()), None),
           (GetCall \<lparr>Namespace = GetNamespace childA, Name = GetName childA\<rparr> childA, Some notFound),
           (CreateCall childA, None),
           (GetCall \<lparr>Namespace = GetNamespace childBad, Name = GetName childBad\<rparr> childBad, None)]) = 1
   \<and> length (filter isCreateOrPatch
          [(GetCall (NamespacedName sampleRequest) (newParentResource (sampleReconciler (recording clusterStore) badMiddleChild [identityPatcher]) ()), None),
           (GetCall \<lparr>Namespace = GetNamespace childA, Name = GetName childA\<rparr> childA, Some notFound),
           (CreateCall childA, None),
           (GetCall \<lparr>Namespace = GetNamespace childBad, Name = GetName childBad\<rparr> childBad, None)]) = 1
   \<and> map Message (errorConditions (parentX\<lparr>GetConditions := [ReconcileError 5 (Wrapped (PlainError (errMarshalJSON @ '': json: unsupported value: NaN'')) (applyMessage childBad))]\<rparr>))
        = [''apply failed: b/default of type /v1, Kind=ConfigMap: json: error calling MarshalJSON for type *unstructured.Unstructured: json: unsupported value: NaN'']
   \<and> kube (sampleReconciler (recording (readOnly clusterStore)) twoChildren [identityPatcher]) = recording (readOnly clusterStore)
   \<and> Get (readOnly clusterStore) (NamespacedName sampleRequest) (newParentResource (sampleReconciler (recording (readOnly clusterStore)) twoChildren [identityPatcher]) ()) sampleStore
        = (Inr parentX, sampleStore)
   \<and> WasDeleted parentX = False
   \<and> templatingEngine (sampleReconciler (recording (readOnly clusterStore)) twoChildren [identityPatcher]) parentX = Inr [childA, childB]
   \<and> ChildResourcePatcherChain_Patch (childResourcePatcher (sampleReconciler (recording (readOnly clusterStore)) twoChildren [identityPatcher])) parentX [childA, childB]
        = Inr ([] @ childA # [childB])
   \<and> applyChildren (recording (readOnly clusterStore)) []
        (sampleStore, [(GetCall (NamespacedName sampleRequest) (newParentResource (sampleReconciler (recording (readOnly clusterStore)) twoChildren [identityPatcher]) ()), None)])
        = (None, (sampleStore,
          [(GetCall (NamespacedName sampleRequest) (newParentResource (sampleReconciler (recording (readOnly clusterStore)) twoChildren [identityPatcher]) ()), None)]))
   \<and> Apply (recording (readOnly clusterStore)) childA
        (sampleStore,
          [(GetCall (NamespacedName sampleRequest) (newParentResource (sampleReconciler (recording (readOnly clusterStore)) twoChildren [identityPatcher]) ()), None)])
        = (Some (Wrapped unavailable errCreateChildResource),
           (sampleStore,
          [(GetCall (NamespacedName sampleRequest) (newParentResource (sampleReconciler (recording (readOnly clusterStore)) twoChildren [identityPatcher]) ()), None),
           (GetCall \<lparr>Namespace = GetNamespace childA, Name = GetName childA\<rparr> childA, Some notFound),
           (CreateCall childA, Some unavailable)]))
   \<and> SetConditions parentX [ReconcileError 5 (Wrapped (Wrapped unavailable errCreateChildResource) (applyMessage childA))]
        = (None, (parentX\<lparr>GetConditions := [ReconcileError 5 (Wrapped (Wrapped unavailable errCreateChildResource) (applyMessage childA))]\<rparr>))
   \<and> StatusUpdate (readOnly clusterStore) (parentX\<lparr>GetConditions := [ReconcileError 5 (Wrapped (Wrapped unavailable errCreateChildResource) (applyMessage childA))]\<rparr>)
        sampleStore
        = (Some unavailable, sampleStore)
   \<and> Reconcile (sampleReconciler (recording (readOnly clusterStore)) twoChildren [identityPatcher]) 5 sampleRequest (sampleStore, []) =
        ((\<lparr>Requeue = False, RequeueAfter = defaultShortWait\<rparr>, Some (Wrapped unavailable errUpdateResourceStatus)),
         (sampleStore,
          [(GetCall (NamespacedName sampleRequest) (newParentResource (sampleReconciler (recording (readOnly clusterStore)) twoChildren [identityPatcher]) ()), None),
           (GetCall \<lparr>Namespace = GetNamespace childA, Name = GetName childA\<rparr> childA, Some notFound),
           (CreateCall childA, Some unavailable)]
          @ [(StatusUpdateCall (parentX\<lparr>GetConditions := [ReconcileError 5 (Wrapped (Wrapped unavailable errCreateChildResource) (applyMessage childA))]\<rparr>), Some unavailable)]), [])
   \<and> length (filter (\<lambda>ev. isCreateOrPatch ev \<and> succeeded ev)
          [(GetCall (NamespacedName sampleRequest) (newParentResource (sampleReconciler (recording (readOnly clusterStore)) twoChildren [identityPatcher]) ()), None),
           (GetCall \<lparr>Namespace = GetNamespace childA, Name = GetName childA\<rparr> childA, Some notFound),
           (CreateCall childA, Some unavailable)]) = 0
   \<and> length (filter isCreateOrPatch
          [(GetCall (NamespacedName sampleRequest) (newParentResource (sampleReconciler (recording (readOnly clusterStore)) twoChildren [identityPatcher]) ()), None),
           (GetCall \<lparr>Namespace = GetNamespace childA, Name = GetName childA\<rparr> childA, Some notFound),
           (CreateCall childA, Some unavailable)]) = 1
   \<and> map Message (errorConditions (parentX\<lparr>GetConditions := [ReconcileError 5 (Wrapped (Wrapped unavailable errCreateChildResource) (applyMessage childA))]\<rparr>))
        = [''apply failed: a/default of type /v1, Kind=ConfigMap: could not create child resource: the server is unavailable'']"
proof -
  have k1: "kube (sampleReconciler (recording clusterStore) badMiddleChild [identityPatcher]) = recording clusterStore"
    by (simp add: sampleReconciler_def)
  have g1: "Get clusterStore (NamespacedName sampleRequest) (newParentResource (sampleReconciler (recording clusterStore) badMiddleChild [identityPatcher]) ()) storeWithB
        = (Inr parentX, storeWithB)"
    by (simp add: store_defs sample_defs badMiddleChild_def childBad_def childC_def storeWithB_def)
  have d1: "\<not> WasDeleted parentX"
    by (simp add: WasDeleted_def parentX_def)
  have e1: "templatingEngine (sampleReconciler (recording clusterStore) badMiddleChild [identityPatcher]) parentX = Inr [childA, childBad, childC]"
    by (simp add: sampleReconciler_def badMiddleChild_def)
  have p1: "ChildResourcePatcherChain_Patch (childResourcePatcher (sampleReconciler (recording clusterStore) badMiddleChild [identityPatcher])) parentX [childA, childBad, childC]
        = Inr ([childA] @ childBad # [childC])"
    by (simp add: sampleReconciler_def identityPatcher_def)
  have a1: "applyChildren (recording clusterStore) [childA]
        (storeWithB, [(GetCall (NamespacedName sampleRequest) (newParentResource (sampleReconciler (recording clusterStore) badMiddleChild [identityPatcher]) ()), None)])
        = (None, ([(objectKey parentX, parentX), (objectKey childB, childB), (objectKey childA, childA)],
          [(GetCall (NamespacedName sampleRequest) (newParentResource (sampleReconciler (recording clusterStore) badMiddleChild [identityPatcher]) ()), None),
           (GetCall \<lparr>Namespace = GetNamespace childA, Name = GetName childA\<rparr> childA, Some notFound),
           (CreateCall childA, None)]))"
    by (simp add: run_defs store_defs sample_defs badMiddleChild_def childBad_def childC_def storeWithB_def)
  have b1: "Apply (recording clusterStore) childBad
        ([(objectKey parentX, parentX), (objectKey childB, childB), (objectKey childA, childA)],
          [(GetCall (NamespacedName sampleRequest) (newParentResource (sampleReconciler (recording clusterStore) badMiddleChild [identityPatcher]) ()), None),
           (GetCall \<lparr>Namespace = GetNamespace childA, Name = GetName childA\<rparr> childA, Some notFound),
           (CreateCall childA, None)])
        = (Some (PlainError (errMarshalJSON @ '': json: unsupported value: NaN'')),
           ([(objectKey parentX, parentX), (objectKey childB, childB), (objectKey childA, childA)],
          [(GetCall (NamespacedName sampleRequest) (newParentResource (sampleReconciler (recording clusterStore) badMiddleChild [identityPatcher]) ()), None),
           (GetCall \<lparr>Namespace = GetNamespace childA, Name = GetName childA\<rparr> childA, Some notFound),
           (CreateCall childA, None),
           (GetCall \<lparr>Namespace = GetNamespace childBad, Name = GetName childBad\<rparr> childBad, None)]))"
    by (simp add: run_defs store_defs sample_defs badMiddleChild_def childBad_def childC_def storeWithB_def)
  have s1: "SetConditions parentX [ReconcileError 5 (Wrapped (PlainError (errMarshalJSON @ '': json: unsupported value: NaN'')) (applyMessage childBad))]
        = (None, (parentX\<lparr>GetConditions := [ReconcileError 5 (Wrapped (PlainError (errMarshalJSON @ '': json: unsupported value: NaN'')) (applyMessage childBad))]\<rparr>))"
    by (simp add: SetConditions_def parentX_def)
  have u1: "StatusUpdate clusterStore (parentX\<lparr>GetConditions := [ReconcileError 5 (Wrapped (PlainError (errMarshalJSON @ '': json: unsupported value: NaN'')) (applyMessage childBad))]\<rparr>)
        [(objectKey parentX, parentX), (objectKey childB, childB), (objectKey childA, childA)]
        = (None, [(objectKey parentX, (parentX\<lparr>GetConditions := [ReconcileError 5 (Wrapped (PlainError (errMarshalJSON @ '': json: unsupported value: NaN'')) (applyMessage childBad))]\<rparr>)), (objectKey childB, childB), (objectKey childA, childA)])"
    by (simp add: store_defs sample_defs badMiddleChild_def childBad_def childC_def storeWithB_def)
  have sw1: "shortWait (sampleReconciler (recording clusterStore) badMiddleChild [identityPatcher]) = defaultShortWait"
    by (simp add: sampleReconciler_def)
  have m1: "map Message (errorConditions (parentX\<lparr>GetConditions := [ReconcileError 5 (Wrapped (PlainError (errMarshalJSON @ '': json: unsupported value: NaN'')) (applyMessage childBad))]\<rparr>))
        = [''apply failed: b/default of type /v1, Kind=ConfigMap: json: error calling MarshalJSON for type *unstructured.Unstructured: json: unsupported value: NaN'']"
    by (simp add: errorConditions_def ReconcileError_def applyMessage_def errApply_def
        errMarshalJSON_def errCreateChildResource_def unavailable_def GroupVersionKind_String_def sample_defs badMiddleChild_def childBad_def childC_def storeWithB_def)
  have c1: "length (filter (\<lambda>ev. isCreateOrPatch ev \<and> succeeded ev)
          [(GetCall (NamespacedName sampleRequest) (newParentResource (sampleReconciler (recording clusterStore) badMiddleChild [identityPatcher]) ()), None),
           (GetCall \<lparr>Namespace = GetNamespace childA, Name = GetName childA\<rparr> childA, Some notFound),
           (CreateCall childA, None),
           (GetCall \<lparr>Namespace = GetNamespace childBad, Name = GetName childBad\<rparr> childBad, None)]) = 1"
    by (simp add: succeeded_def)
  have k2: "kube (sampleReconciler (recording (readOnly clusterStore)) twoChildren [identityPatcher]) = recording (readOnly clusterStore)"
    by (simp add: sampleReconciler_def)
  have g2: "Get (readOnly clusterStore) (NamespacedName sampleRequest) (newParentResource (sampleReconciler (recording (readOnly clusterStore)) twoChildren [identityPatcher]) ()) sampleStore
        = (Inr parentX, sampleStore)"
    by (simp add: store_defs sample_defs twoChildren_def readOnly_def unavailable_def)
  have d2: "\<not> WasDeleted parentX"
    by (simp add: WasDeleted_def parentX_def)
  have e2: "templatingEngine (sampleReconciler (recording (readOnly clusterStore)) twoChildren [identityPatcher]) parentX = Inr [childA, childB]"
    by (simp add: sampleReconciler_def twoChildren_def)
  have p2: "ChildResourcePatcherChain_Patch (childResourcePatcher (sampleReconciler (recording (readOnly clusterStore)) twoChildren [identityPatcher])) parentX [childA, childB]
        = Inr ([] @ childA # [childB])"
    by (simp add: sampleReconciler_def identityPatcher_def)
  have a2: "applyChildren (recording (readOnly clusterStore)) []
        (sampleStore, [(GetCall (NamespacedName sampleRequest) (newParentResource (sampleReconciler (recording (readOnly clusterStore)) twoChildren [identityPatcher]) ()), None)])
        = (None, (sampleStore,
          [(GetCall (NamespacedName sampleRequest) (newParentResource (sampleReconciler (recording (readOnly clusterStore)) twoChildren [identityPatcher]) ()), None)]))"
    by (simp add: run_defs store_defs sample_defs twoChildren_def readOnly_def unavailable_def)
  have b2: "Apply (recording (readOnly clusterStore)) childA
        (sampleStore,
          [(GetCall (NamespacedName sampleRequest) (newParentResource (sampleReconciler (recording (readOnly clusterStore)) twoChildren [identityPatcher]) ()), None)])
        = (Some (Wrapped unavailable errCreateChildResource),
           (sampleStore,
          [(GetCall (NamespacedName sampleRequest) (newParentResource (sampleReconciler (recording (readOnly clusterStore)) twoChildren [identityPatcher]) ()), None),
           (GetCall \<lparr>Namespace = GetNamespace childA, Name = GetName childA\<rparr> childA, Some notFound),
           (CreateCall childA, Some unavailable)]))"
    by (simp add: run_defs store_defs sample_defs twoChildren_def readOnly_def unavailable_def)
  have s2: "SetConditions parentX [ReconcileError 5 (Wrapped (Wrapped unavailable errCreateChildResource) (applyMessage childA))]
        = (None, (parentX\<lparr>GetConditions := [ReconcileError 5 (Wrapped (Wrapped unavailable errCreateChildResource) (applyMessage childA))]\<rparr>))"
    by (simp add: SetConditions_def parentX_def)
  have u2: "StatusUpdate (readOnly clusterStore) (parentX\<lparr>GetConditions := [ReconcileError 5 (Wrapped (Wrapped unavailable errCreateChildResource) (applyMessage childA))]\<rparr>)
        sampleStore
        = (Some unavailable, sampleStore)"
    by (simp add: store_defs sample_defs twoChildren_def readOnly_def unavailable_def)
  have sw2: "shortWait (sampleReconciler (recording (readOnly clusterStore)) twoChildren [identityPatcher]) = defaultShortWait"
    by (simp add: sampleReconciler_def)
  have m2: "map Message (errorConditions (parentX\<lparr>GetConditions := [ReconcileError 5 (Wrapped (Wrapped unavailable errCreateChildResource) (applyMessage childA))]\<rparr>))
        = [''apply failed: a/default of type /v1, Kind=ConfigMap: could not create child resource: the server is unavailable'']"
    by (simp add: errorConditions_def ReconcileError_def applyMessage_def errApply_def
        errMarshalJSON_def errCreateChildResource_def unavailable_def GroupVersionKind_String_def sample_defs twoChildren_def readOnly_def unavailable_def)
  have c2: "length (filter (\<lambda>ev. isCreateOrPatch ev \<and> succeeded ev)
          [(GetCall (NamespacedName sampleRequest) (newParentResource (sampleReconciler (recording (readOnly clusterStore)) twoChildren [identityPatcher]) ()), None),
           (GetCall \<lparr>Namespace = GetNamespace childA, Name = GetName childA\<rparr> childA, Some notFound),
           (CreateCall childA, Some unavailable)]) = 0"
    by (simp add: succeeded_def)
  from Reconcile_stops_at_failing_child [OF k1 g1 d1 e1 p1 a1 b1 s1 u1]
       Reconcile_stops_at_failing_child [OF k2 g2 d2 e2 p2 a2 b2 s2 u2]
       k1 g1 d1 e1 p1 a1 b1 s1 u1 sw1 m1 c1 k2 g2 d2 e2 p2 a2 b2 s2 u2 sw2 m2 c2
  show ?thesis by simp
qed

section \<open>Apply\<close>

text \<open>
  Claim C1. \<open>Apply\<close> gets, then creates on not-found, fails with the get label on any
  other get error, and patches the fetched object with the serialized desired one; a
  create error comes back under the create label. A patch error does not come back under
  a label: on a child that the store holds, \<open>Apply\<close> returns the error of the failing
  patch as the client gave it, while the failing create of the same child on an empty
  store comes back wrapped.
\<close>

theorem Apply_patch_error_unlabelled:
  "Apply (readOnly clusterStore) childA [(objectKey childA, childA)]
     = (Some unavailable, [(objectKey childA, childA)])
   \<and> Apply (readOnly clusterStore) childA []
     = (Some (Wrapped unavailable errCreateChildResource), [])"
  by (simp add: run_defs store_defs sample_defs readOnly_def unavailable_def)

text \<open>
  Claim C10. When the existing object was fetched and serializing the desired object
  fails (it holds a float that JSON cannot encode), \<open>Apply\<close> returns the
  serialization error as it is, under no label, and the store has received the get and
  nothing else: no patch is issued.
\<close>

theorem Apply_marshal_failure:
  assumes "Get c \<lparr>Namespace = GetNamespace obj, Name = GetName obj\<rparr> obj w = (Inr existing, w1)"
    and "json_Marshal obj = Inl err"
  shows "Apply (recording c) obj (w, tr) =
           (Some err,
            (w1, tr @ [(GetCall \<lparr>Namespace = GetNamespace obj, Name = GetName obj\<rparr> obj, None)]))"
  using assms by (simp add: Apply_def DeepCopyObject_def recording_Get)

theorem Apply_marshal_failure_witness:
  "Get clusterStore \<lparr>Namespace = GetNamespace childBad, Name = GetName childBad\<rparr> childBad
       [(objectKey childB, childB)]
     = (Inr childB, [(objectKey childB, childB)])
   \<and> json_Marshal childBad = Inl (PlainError (errMarshalJSON @ '': json: unsupported value: NaN''))
   \<and> Apply (recording clusterStore) childBad ([(objectKey childB, childB)], [])
     = (Some (PlainError (errMarshalJSON @ '': json: unsupported value: NaN'')),
        ([(objectKey childB, childB)],
         [(GetCall \<lparr>Namespace = GetNamespace childBad, Name = GetName childBad\<rparr> childBad, None)]))"
proof -
  have g: "Get clusterStore \<lparr>Namespace = GetNamespace childBad, Name = GetName childBad\<rparr> childBad
       [(objectKey childB, childB)]
     = (Inr childB, [(objectKey childB, childB)])"
    by (simp add: store_defs sample_defs childBad_def)
  have m: "json_Marshal childBad = Inl (PlainError (errMarshalJSON @ '': json: unsupported value: NaN''))"
    by (simp add: json_Marshal_def sample_defs childBad_def)
  from Apply_marshal_failure [OF g m, of "[]"] g m show ?thesis by simp
qed

text \<open>
  Claim C8. On the store of the spec, initially empty, the first \<open>Apply\<close> of a
  serializable child makes one get, answered not-found, and one create; every later
  \<open>Apply\<close> of the same child makes one get and one merge patch, both without error,
  and leaves the store as it was: the patch changes nothing.
\<close>

theorem Apply_twice:
  assumes "json_Marshal obj = Inr patchJSON"
    and "distinct (map fst (UnstructuredContent obj))"
  shows "Apply (recording clusterStore) obj ([], []) =
           (None, ([(objectKey obj, obj)],
                   [(GetCall \<lparr>Namespace = GetNamespace obj, Name = GetName obj\<rparr> obj, Some notFound),
                    (CreateCall obj, None)]))
         \<and> Apply (recording clusterStore) obj ([(objectKey obj, obj)], tr) =
           (None, ([(objectKey obj, obj)],
                   tr @ [(GetCall \<lparr>Namespace = GetNamespace obj, Name = GetName obj\<rparr> obj, None),
                         (PatchCall obj (ConstantPatch MergePatchType patchJSON), None)]))"
proof -
  have p: "patchJSON = RawJSON obj"
    using assms(1) by (auto simp: json_Marshal_def split: option.splits)
  have m: "mergePatch obj (RawJSON obj) = obj"
    using merge_self [OF assms(2), of "UnstructuredContent obj"]
    by (cases "GetDeletionTimestamp obj") simp_all
  show ?thesis
    using assms(1) p m
    by (simp add: Apply_def DeepCopyObject_def recording_Get recording_Create recording_Patch clusterStore_def
        store_Get_def store_Create_def store_Patch_def objectKey_def ConstantPatch_def
        notFound_def del: mergePatch.simps)
qed

theorem Apply_twice_witness:
  "json_Marshal childA = Inr (RawJSON childA)
   \<and> distinct (map fst (UnstructuredContent childA))
   \<and> Apply (recording clusterStore) childA ([], []) =
        (None, ([(objectKey childA, childA)],
                [(GetCall \<lparr>Namespace = GetNamespace childA, Name = GetName childA\<rparr> childA, Some notFound),
                 (CreateCall childA, None)]))
   \<and> Apply (recording clusterStore) childA
        ([(objectKey childA, childA)],
         [(GetCall \<lparr>Namespace = GetNamespace childA, Name = GetName childA\<rparr> childA, Some notFound),
          (CreateCall childA, None)]) =
        (None, ([(objectKey childA, childA)],
                [(GetCall \<lparr>Namespace = GetNamespace childA, Name = GetName childA\<rparr> childA, Some notFound),
                 (CreateCall childA, None),
                 (GetCall \<lparr>Namespace = GetNamespace childA, Name = GetName childA\<rparr> childA, None),
                 (PatchCall childA (ConstantPatch MergePatchType (RawJSON childA)), None)]))"
proof -
  have m: "json_Marshal childA = Inr (RawJSON childA)"
    by (simp add: json_Marshal_def childA_def)
  have d: "distinct (map fst (UnstructuredContent childA))"
    by (simp add: childA_def)
  from Apply_twice [OF m d, of "[(GetCall \<lparr>Namespace = GetNamespace childA, Name = GetName childA\<rparr> childA, Some notFound),
          (CreateCall childA, None)]"] m d
  show ?thesis by simp
qed

section \<open>Nothing is ever deleted\<close>

text \<open>
  Claim C9. Behind a recorder, neither a cycle of \<open>Reconcile\<close> nor an \<open>Apply\<close>
  makes a call that deletes (\<open>Delete\<close> or \<open>DeleteAllOf\<close>), whatever the client
  answers. In particular a child that a later cycle no longer templates stays in the store.
\<close>

theorem no_delete_calls:
  assumes "kube r = recording c"
  shows "filter isDelete (observed (Reconcile r now req (w, []))) = []
         \<and> filter isDelete (snd (snd (Apply (recording c) obj (w, [])))) = []"
proof
  show "filter isDelete (observed (Reconcile r now req (w, []))) = []"
  proof (cases "Get c (NamespacedName req) (newParentResource r ()) w")
    case (Pair loaded w1)
    show ?thesis
    proof (cases loaded)
      case (Inl err)
      with Pair Reconcile_load_failure [OF assms] show ?thesis
        by (simp add: observed_def)
    next
      case (Inr cr)
      show ?thesis
      proof (cases "WasDeleted cr")
        case True
        with Pair Inr Reconcile_deleted [OF assms] show ?thesis
          by (simp add: observed_def)
      next
        case False
        from Reconcile_live [OF assms _ False, of req w w1 now] Pair Inr
        obtain res uerr w2 mid cr1 where
          "Reconcile r now req (w, []) =
               ((res, Wrap uerr errUpdateResourceStatus),
                (w2, (GetCall (NamespacedName req) (newParentResource r ()), None) # mid
                       @ [(StatusUpdateCall cr1, uerr)]), [])"
          "\<forall>ev \<in> set mid. isGet ev \<or> isCreateOrPatch ev"
          by auto
        then show ?thesis
          by (simp add: observed_def no_delete_mid)
      qed
    qed
  qed
next
  obtain err w1 tr1 where a: "Apply (recording c) obj (w, []) = (err, (w1, tr1))"
    by (metis surj_pair)
  from Apply_recording_trace [OF a] obtain new where
    "tr1 = [] @ new" "\<forall>ev \<in> set new. isGet ev \<or> isCreateOrPatch ev"
    by blast
  with a show "filter isDelete (snd (snd (Apply (recording c) obj (w, [])))) = []"
    by (simp add: no_delete_mid)
qed

theorem no_delete_calls_witness:
  "kube (sampleReconciler (recording clusterStore) twoChildren [identityPatcher]) = recording clusterStore
   \<and> filter isDelete (observed (Reconcile
        (sampleReconciler (recording clusterStore) twoChildren [identityPatcher]) 5 sampleRequest
        (sampleStore, []))) = []
   \<and> filter isDelete (snd (snd (Apply (recording clusterStore) childA (sampleStore, [])))) = []
   \<and> map_of (fst (fst (snd (Reconcile
        (sampleReconciler (recording clusterStore) oneChild [identityPatcher]) 6 sampleRequest
        (fst (fst (snd (Reconcile
           (sampleReconciler (recording clusterStore) twoChildren [identityPatcher]) 5 sampleRequest
           (sampleStore, [])))), []))))) (objectKey childB) = Some childB"
proof -
  have k: "kube (sampleReconciler (recording clusterStore) twoChildren [identityPatcher]) = recording clusterStore"
    by (simp add: sampleReconciler_def)
  have s: "map_of (fst (fst (snd (Reconcile
        (sampleReconciler (recording clusterStore) oneChild [identityPatcher]) 6 sampleRequest
        (fst (fst (snd (Reconcile
           (sampleReconciler (recording clusterStore) twoChildren [identityPatcher]) 5 sampleRequest
           (sampleStore, [])))), []))))) (objectKey childB) = Some childB"
    by (simp add: run_defs store_defs sample_defs twoChildren_def oneChild_def)
  from no_delete_calls [OF k, of 5 sampleRequest sampleStore childA] k s
  show ?thesis by simp
qed

end
